theory Spec2Isabelle
  imports Complex_Main
begin

section \<open>Number values and their text\<close>

text \<open>
  The TypeScript sources compute with \<^verbatim>\<open>number\<close>, the IEEE-754 binary64 format. Counters only
  ever start at zero and are incremented by one, so they are \<^typ>\<open>nat\<close>. Every other Number
  is the rational it denotes (\<^typ>\<open>rat\<close>), and a division or multiplication is the exact
  result rounded to the nearest double, ties to even. The running total of the durations is
  the exact sum: integer nanoseconds add without rounding below \<open>2^53\<close>. Infinities and NaN
  do not occur: the largest quotient formed here is far below the largest double, and no
  divisor is zero.
\<close>

subsection \<open>Rounding to a double\<close>

text \<open>The number of binary digits of a natural number.\<close>

fun bitLength :: "nat \<Rightarrow> nat" where
  "bitLength n = (if n = 0 then 0 else Suc (bitLength (n div 2)))"

declare bitLength.simps [simp del]

text \<open>The exponent \<open>e\<close> with \<open>2^e \<le> x < 2^(e+1)\<close>, for positive \<open>x\<close>.\<close>

definition binade :: "rat \<Rightarrow> int" where
  "binade x =
     (if 1 \<le> x then int (bitLength (nat \<lfloor>x\<rfloor>)) - 1
      else (let k = bitLength (nat \<lfloor>1 / x\<rfloor>) - 1
            in if x * 2 ^ k = 1 then - int k else - int k - 1))"

definition roundHalfEven :: "rat \<Rightarrow> int" where
  "roundHalfEven y =
     (let f = \<lfloor>y\<rfloor>; r = y - of_int f
      in if r < 1 / 2 then f else if 1 / 2 < r then f + 1 else if even f then f else f + 1)"

text \<open>
  The double nearest to a rational: 53 significant bits, and below \<open>2^-1022\<close> the fixed
  spacing \<open>2^-1074\<close> of the subnormal numbers.
\<close>

definition roundToDouble :: "rat \<Rightarrow> rat" where
  "roundToDouble x =
     (if x = 0 then 0
      else (let a = \<bar>x\<bar>; e = binade a; k = max (e - 52) (- 1074);
                m = roundHalfEven (a / 2 powi k)
            in sgn x * of_int m * 2 powi k))"

text \<open>The operators \<^verbatim>\<open>/\<close> and \<^verbatim>\<open>*\<close> on Numbers.\<close>

definition jsDivide :: "rat \<Rightarrow> rat \<Rightarrow> rat" where
  "jsDivide x y = roundToDouble (x / y)"

definition jsMultiply :: "rat \<Rightarrow> rat \<Rightarrow> rat" where
  "jsMultiply x y = roundToDouble (x * y)"

text \<open>
  The \<^verbatim>\<open>%\<close> operator: the remainder takes the sign of the dividend, and it is exact.
\<close>

definition jsRemainder :: "rat \<Rightarrow> rat \<Rightarrow> rat" where
  "jsRemainder x y =
     (let q = x / y in x - y * of_int (if q < 0 then \<lceil>q\<rceil> else \<lfloor>q\<rfloor>))"

subsection \<open>Numbers as text\<close>

text \<open>Decimal digits of a natural number.\<close>

definition digitChar :: "nat \<Rightarrow> char" where
  "digitChar d = ''0123456789'' ! d"

fun natToString :: "nat \<Rightarrow> string" where
  "natToString n =
     (if n < 10 then [digitChar n]
      else natToString (n div 10) @ [digitChar (n mod 10)])"

declare natToString.simps [simp del]

text \<open>
  An integer-valued Number inside a template literal (\<^verbatim>\<open>Number::toString\<close> of ECMA-262):
  the shortest decimal digits \<open>s\<close>, \<open>k\<close> of them, for which \<open>s * 10^(n-k)\<close> rounds to the
  Number; then zeros up to \<open>n\<close> digits, or exponent notation when \<open>n\<close> exceeds 21. Below
  \<open>2^53\<close> every integer is a double and the digits are those of the integer itself.
\<close>

definition roundTrips :: "nat \<Rightarrow> nat \<Rightarrow> nat \<Rightarrow> nat \<Rightarrow> bool" where
  "roundTrips a n k s =
     (s < 10 ^ k \<and> roundToDouble (of_nat (s * 10 ^ (n - k))) = of_nat a)"

fun shortestDigits :: "nat \<Rightarrow> nat \<Rightarrow> nat \<Rightarrow> nat \<Rightarrow> nat" where
  "shortestDigits 0 a n k = a"
| "shortestDigits (Suc fuel) a n k =
     (let lo = a div 10 ^ (n - k); hi = lo + 1
      in if roundTrips a n k lo \<and> roundTrips a n k hi
           then (let dlo = a - lo * 10 ^ (n - k); dhi = hi * 10 ^ (n - k) - a
                 in if dlo < dhi \<or> (dlo = dhi \<and> even lo) then lo else hi)
         else if roundTrips a n k lo then lo
         else if roundTrips a n k hi then hi
         else shortestDigits fuel a n (k + 1))"

definition largeToString :: "nat \<Rightarrow> string" where
  "largeToString a =
     (let n = length (natToString a)
      in if roundToDouble (10 ^ n) = of_nat a then ''1e+'' @ natToString n
         else (let ds = natToString (shortestDigits n a n 1); k = length ds
               in if n \<le> 21 then ds @ replicate (n - k) (CHR ''0'')
                  else (if k = 1 then ds else hd ds # ''.'' @ tl ds) @ ''e+'' @ natToString (n - 1)))"

definition numberToString :: "int \<Rightarrow> string" where
  "numberToString i =
     (let a = nat \<bar>i\<bar>
      in (if i < 0 then ''-'' else '''')
         @ (if a < 2 ^ 53 then natToString a else largeToString a))"

text \<open>
  \<^verbatim>\<open>Number.prototype.toFixed(f)\<close> as ECMA-262 describes it: a sign; from \<open>10^21\<close> on the text
  of the Number; otherwise the integer \<open>n\<close> for which \<open>n / 10^f\<close> is closest to the value
  (the larger one on a tie), padded with zeros to \<open>f + 1\<close> digits and split before the last
  \<open>f\<close>.
\<close>

definition toFixed :: "rat \<Rightarrow> nat \<Rightarrow> string" where
  "toFixed x0 f =
     (let s = (if x0 < 0 then ''-'' else '''');
          x = (if x0 < 0 then - x0 else x0)
      in if 10 ^ 21 \<le> x then s @ numberToString \<lfloor>x\<rfloor>
         else (let n = nat \<lfloor>x * 10 ^ f + 1 / 2\<rfloor>;
                   m = (if n = 0 then ''0'' else natToString n);
                   m' = (if f \<noteq> 0
                         then (let k = length m;
                                   z = (if k \<le> f then replicate (f + 1 - k) (CHR ''0'') @ m else m);
                                   k' = length z
                               in take (k' - f) z @ ''.'' @ drop (k' - f) z)
                         else m)
               in s @ m'))"

section \<open>Result Summarizer (generate-pr-comment)\<close>

subsection \<open>Data model\<close>

record StepResult =
  status :: string
  duration :: "rat option"
  error_message :: "string option"

record CucumberStep =
  result :: StepResult

record CucumberScenario =
  name :: string
  type :: string
  steps :: "CucumberStep list"
  tags :: "string list option"

record CucumberFeature =
  name :: string
  elements :: "CucumberScenario list"

record FeatureSummary =
  name :: string
  scenarios :: nat
  passed :: nat
  failed :: nat
  skipped :: nat

record TestResults =
  totalScenarios :: nat
  passedScenarios :: nat
  failedScenarios :: nat
  skippedScenarios :: nat
  totalSteps :: nat
  passedSteps :: nat
  failedSteps :: nat
  skippedSteps :: nat
  duration :: rat
  features :: "FeatureSummary list"

text \<open>The return type \<^verbatim>\<open>'passed' | 'failed' | 'skipped'\<close> of \<^verbatim>\<open>determineScenarioStatus\<close>.\<close>

datatype ScenarioStatus = Passed | Failed | Skipped

subsection \<open>Counting\<close>

definition processStep :: "CucumberStep \<Rightarrow> TestResults \<Rightarrow> TestResults" where
  "processStep step results =
     (let r1 = results\<lparr>TestResults.totalSteps := TestResults.totalSteps results + 1\<rparr>;
          r2 = r1\<lparr>TestResults.duration := TestResults.duration r1 +
                 (case StepResult.duration (result step) of None \<Rightarrow> 0 | Some d \<Rightarrow> d)\<rparr>
      in if StepResult.status (result step) = ''passed''
           then r2\<lparr>passedSteps := passedSteps r2 + 1\<rparr>
         else if StepResult.status (result step) = ''failed''
           then r2\<lparr>failedSteps := failedSteps r2 + 1\<rparr>
         else if StepResult.status (result step) = ''skipped''
           then r2\<lparr>skippedSteps := skippedSteps r2 + 1\<rparr>
         else r2)"

text \<open>\<^verbatim>\<open>Array.prototype.some\<close>: scan from the left, stop at the first hit.\<close>

fun some :: "('a \<Rightarrow> bool) \<Rightarrow> 'a list \<Rightarrow> bool" where
  "some p [] = False"
| "some p (x # xs) = (if p x then True else some p xs)"

definition determineScenarioStatus :: "CucumberStep list \<Rightarrow> ScenarioStatus" where
  "determineScenarioStatus stps =
     (let hasFailed = some (\<lambda>step. StepResult.status (result step) = ''failed'') stps
      in if hasFailed then Failed
         else (let hasSkipped = some (\<lambda>step. StepResult.status (result step) = ''skipped'') stps
               in if hasSkipped then Skipped else Passed))"

definition updateScenarioCounts ::
    "ScenarioStatus \<Rightarrow> FeatureSummary \<Rightarrow> TestResults \<Rightarrow> FeatureSummary \<times> TestResults" where
  "updateScenarioCounts st featureSummary results =
     (if st = Passed
        then (featureSummary\<lparr>passed := passed featureSummary + 1\<rparr>,
              results\<lparr>passedScenarios := passedScenarios results + 1\<rparr>)
      else if st = Failed
        then (featureSummary\<lparr>failed := failed featureSummary + 1\<rparr>,
              results\<lparr>failedScenarios := failedScenarios results + 1\<rparr>)
      else (featureSummary\<lparr>skipped := skipped featureSummary + 1\<rparr>,
            results\<lparr>skippedScenarios := skippedScenarios results + 1\<rparr>))"

text \<open>
  The body of the loop over \<^verbatim>\<open>feature.elements\<close> in \<^verbatim>\<open>parseTestResults\<close>; the state is
  the feature's summary under construction together with the global results.
\<close>

definition scenarioLoopBody ::
    "CucumberScenario \<Rightarrow> FeatureSummary \<times> TestResults \<Rightarrow> FeatureSummary \<times> TestResults" where
  "scenarioLoopBody scenario st =
     (case st of (featureSummary, results) \<Rightarrow>
        if type scenario \<noteq> ''scenario'' then (featureSummary, results)
        else (let fs1 = featureSummary\<lparr>scenarios := scenarios featureSummary + 1\<rparr>;
                  r1 = results\<lparr>TestResults.totalScenarios := TestResults.totalScenarios results + 1\<rparr>;
                  r2 = fold processStep (CucumberScenario.steps scenario) r1;
                  scenarioStatus = determineScenarioStatus (CucumberScenario.steps scenario)
              in updateScenarioCounts scenarioStatus fs1 r2))"

text \<open>The body of the loop over the features of the document.\<close>

definition featureLoopBody :: "CucumberFeature \<Rightarrow> TestResults \<Rightarrow> TestResults" where
  "featureLoopBody feature results =
     (let featureSummary0 = \<lparr>FeatureSummary.name = CucumberFeature.name feature,
                              scenarios = 0, passed = 0, failed = 0, skipped = 0\<rparr>
      in case fold scenarioLoopBody (elements feature) (featureSummary0, results) of
           (featureSummary, results') \<Rightarrow>
             if scenarios featureSummary > 0
             then results'\<lparr>features := features results' @ [featureSummary]\<rparr>
             else results')"

definition initialResults :: TestResults where
  "initialResults =
     \<lparr>TestResults.totalScenarios = 0, passedScenarios = 0, failedScenarios = 0,
      skippedScenarios = 0, TestResults.totalSteps = 0, passedSteps = 0, failedSteps = 0,
      skippedSteps = 0, TestResults.duration = 0, features = []\<rparr>"

text \<open>The part of \<^verbatim>\<open>parseTestResults\<close> after the document has been read and parsed.\<close>

definition summarize :: "CucumberFeature list \<Rightarrow> TestResults" where
  "summarize fs = fold featureLoopBody fs initialResults"

subsection \<open>Reading the report\<close>

text \<open>
  A thrown \<^verbatim>\<open>Error\<close> with its message. The file system is a map from paths to contents;
  \<^verbatim>\<open>JSON.parse\<close> (with the unchecked cast to \<^verbatim>\<open>CucumberFeature[]\<close>) is a parameter.
\<close>

datatype error = Error string

type_synonym FileSystem = "string \<rightharpoonup> string"

definition existsSync :: "FileSystem \<Rightarrow> string \<Rightarrow> bool" where
  "existsSync fs path = (fs path \<noteq> None)"

definition readFile :: "FileSystem \<Rightarrow> string \<Rightarrow> error + string" where
  "readFile fs path =
     (case fs path of
        None \<Rightarrow> Inl (Error (''ENOENT: no such file or directory, open '' @ path))
      | Some content \<Rightarrow> Inr content)"

definition reportPath :: string where
  "reportPath = ''test-results/cucumber-report.json''"

definition parseTestResults ::
    "(string \<Rightarrow> error + CucumberFeature list) \<Rightarrow> FileSystem \<Rightarrow> error + TestResults" where
  "parseTestResults JSON_parse fs =
     (if \<not> existsSync fs reportPath
        then Inl (Error (''Report file not found: '' @ reportPath))
      else (case readFile fs reportPath of
              Inl e \<Rightarrow> Inl e
            | Inr content \<Rightarrow>
                (case JSON_parse content of
                   Inl e \<Rightarrow> Inl e
                 | Inr fs' \<Rightarrow> Inr (summarize fs'))))"

subsection \<open>Rendering the report\<close>

definition formatDuration :: "rat \<Rightarrow> string" where
  "formatDuration nanoseconds =
     (let seconds = jsDivide nanoseconds 1000000000
      in if seconds < 60 then toFixed seconds 2 @ ''s''
         else (let minutes = \<lfloor>jsDivide seconds 60\<rfloor>;
                   remainingSeconds = \<lfloor>jsRemainder seconds 60\<rfloor>
               in numberToString minutes @ ''m '' @ numberToString remainingSeconds @ ''s''))"

text \<open>The constant \<^verbatim>\<open>passRate\<close> of \<^verbatim>\<open>generateComment\<close>.\<close>

definition passRate :: "TestResults \<Rightarrow> string" where
  "passRate results =
     (if TestResults.totalScenarios results > 0
      then toFixed
             (jsMultiply
                (jsDivide (of_nat (passedScenarios results))
                   (of_nat (TestResults.totalScenarios results)))
                100)
             1
      else ''0.0'')"

text \<open>The non-ASCII characters of the report, as their UTF-8 bytes, and the line break.\<close>

definition NL :: string where "NL = [CHR 0x0A]"
definition checkMark :: string where "checkMark = [CHR 0xE2, CHR 0x9C, CHR 0x85]"
definition crossMark :: string where "crossMark = [CHR 0xE2, CHR 0x9D, CHR 0x8C]"
definition barChart :: string where "barChart = [CHR 0xF0, CHR 0x9F, CHR 0x93, CHR 0x8A]"
definition nextTrack :: string where
  "nextTrack = [CHR 0xE2, CHR 0x8F, CHR 0xAD, CHR 0xEF, CHR 0xB8, CHR 0x8F]"
definition memo :: string where "memo = [CHR 0xF0, CHR 0x9F, CHR 0x93, CHR 0x9D]"
definition magnifier :: string where "magnifier = [CHR 0xF0, CHR 0x9F, CHR 0x94, CHR 0x8D]"
definition package :: string where "package = [CHR 0xF0, CHR 0x9F, CHR 0x93, CHR 0xA6]"
definition pageFacingUp :: string where "pageFacingUp = [CHR 0xF0, CHR 0x9F, CHR 0x93, CHR 0x84]"
definition cameraFlash :: string where "cameraFlash = [CHR 0xF0, CHR 0x9F, CHR 0x93, CHR 0xB8]"
definition movieCamera :: string where "movieCamera = [CHR 0xF0, CHR 0x9F, CHR 0x8E, CHR 0xA5]"
definition cucumber :: string where "cucumber = [CHR 0xF0, CHR 0x9F, CHR 0xA5, CHR 0x92]"
definition enDash :: string where "enDash = [CHR 0xE2, CHR 0x80, CHR 0x93]"
definition doubleQuote :: string where "doubleQuote = [CHR 0x22]"

definition runUrl :: string where
  "runUrl = ''https://github.com/${GITHUB_REPOSITORY}/actions/runs/${GITHUB_RUN_ID}''"

text \<open>One row of the per-feature table (the body of the loop over \<^verbatim>\<open>results.features\<close>).\<close>

definition featureRow :: "FeatureSummary \<Rightarrow> string" where
  "featureRow feature =
     (let icon = (if failed feature > 0 then crossMark else checkMark)
      in ''| '' @ icon @ '' '' @ FeatureSummary.name feature @ '' | ''
         @ natToString (scenarios feature) @ '' | '' @ natToString (passed feature) @ '' | ''
         @ natToString (failed feature) @ '' | '' @ natToString (skipped feature) @ '' |'' @ NL)"

definition generateComment :: "TestResults \<Rightarrow> string" where
  "generateComment results =
     (let status = (if failedScenarios results = 0 then checkMark else crossMark);
          statusText = (if failedScenarios results = 0 then ''**PASSED**'' else ''**FAILED**'');
          c1 = ''## '' @ status @ '' Test Results '' @ statusText @ NL @ NL;
          c2 = c1 @ ''### '' @ barChart @ '' Summary'' @ NL @ NL;
          c3 = c2 @ ''| Metric | Count |'' @ NL;
          c4 = c3 @ ''|--------|-------|'' @ NL;
          c5 = c4 @ ''| **Total Scenarios** | ''
                 @ natToString (TestResults.totalScenarios results) @ '' |'' @ NL;
          c6 = c5 @ ''| '' @ checkMark @ '' Passed | ''
                 @ natToString (passedScenarios results) @ '' |'' @ NL;
          c7 = c6 @ ''| '' @ crossMark @ '' Failed | ''
                 @ natToString (failedScenarios results) @ '' |'' @ NL;
          c8 = c7 @ ''| '' @ nextTrack @ '' Skipped | ''
                 @ natToString (skippedScenarios results) @ '' |'' @ NL;
          c9 = c8 @ ''| **Pass Rate** | '' @ passRate results @ ''% |'' @ NL;
          c10 = c9 @ ''| **Duration** | ''
                  @ formatDuration (TestResults.duration results) @ '' |'' @ NL @ NL;
          c11 = (if length (features results) > 0
                 then c10 @ ''### '' @ memo @ '' Features'' @ NL @ NL
                      @ ''| Feature | Scenarios | '' @ checkMark @ '' Passed | '' @ crossMark
                      @ '' Failed | '' @ nextTrack @ '' Skipped |'' @ NL
                      @ ''|---------|-----------|----------|----------|----------|'' @ NL
                      @ concat (map featureRow (features results))
                      @ NL
                 else c10);
          c12 = (if failedScenarios results > 0
                 then c11 @ ''### '' @ magnifier @ '' Action Required'' @ NL @ NL
                      @ natToString (failedScenarios results)
                      @ '' scenario(s) failed. Please review the test results and fix the failing tests.''
                      @ NL @ NL
                 else c11);
          c13 = c12 @ ''### '' @ package @ '' Artifacts'' @ NL @ NL;
          c14 = c13 @ ''- ['' @ pageFacingUp @ '' Full HTML Report]('' @ runUrl @ '')'' @ NL;
          c15 = c14 @ ''- ['' @ barChart @ '' Test Results JSON]('' @ runUrl @ '')'' @ NL;
          c16 = (if failedScenarios results > 0
                 then c15 @ ''- ['' @ cameraFlash @ '' Screenshots]('' @ runUrl @ '') '' @ enDash
                      @ '' open this run and download the '' @ doubleQuote @ ''Screenshots''
                      @ doubleQuote @ '' artifact from the Artifacts section (if available)'' @ NL
                      @ ''- ['' @ movieCamera @ '' Videos]('' @ runUrl @ '') '' @ enDash
                      @ '' open this run and download the '' @ doubleQuote @ ''Videos''
                      @ doubleQuote @ '' artifact from the Artifacts section (if available)'' @ NL
                 else c15);
          c17 = c16 @ NL @ ''---'' @ NL;
          c18 = c17 @ ''*Generated by PICKL Test Automation* '' @ cucumber @ NL
      in c18)"

text \<open>
  \<^verbatim>\<open>generatePRComment\<close>: an error thrown by \<^verbatim>\<open>parseTestResults\<close> is not caught here;
  otherwise the comment is written to its file. The \<^verbatim>\<open>debug\<close> calls only log.
\<close>

definition generatePRComment ::
    "(string \<Rightarrow> error + CucumberFeature list) \<Rightarrow> FileSystem \<Rightarrow> error + FileSystem" where
  "generatePRComment JSON_parse fs =
     (case parseTestResults JSON_parse fs of
        Inl e \<Rightarrow> Inl e
      | Inr results \<Rightarrow> Inr (fs(''test-results/pr-comment.md'' \<mapsto> generateComment results)))"

text \<open>
  The last statement of the script: the \<^verbatim>\<open>catch\<close> handler ends the process with exit code 1;
  without an error the process ends normally. The result is the exit code and the files.
\<close>

definition runScript ::
    "(string \<Rightarrow> error + CucumberFeature list) \<Rightarrow> FileSystem \<Rightarrow> nat \<times> FileSystem" where
  "runScript JSON_parse fs =
     (case generatePRComment JSON_parse fs of
        Inl e \<Rightarrow> (1, fs)
      | Inr fs' \<Rightarrow> (0, fs'))"

section \<open>Execution Event Aggregator (verbose-formatter)\<close>

subsection \<open>Messages of the test runner\<close>

text \<open>
  The message types come from the runner's libraries; only the fields the formatter reads
  are kept. \<^verbatim>\<open>TestStepResultStatus\<close> is the library's enumeration.
\<close>

datatype TestStepResultStatus =
  UNKNOWN | PASSED | SKIPPED | PENDING | UNDEFINED | AMBIGUOUS | FAILED

record TestStepResult =
  status :: TestStepResultStatus

text \<open>The field \<^verbatim>\<open>text\<close> of a pickle step is written \<open>text'\<close>.\<close>

record PickleStep =
  id :: string
  text' :: string

record Pickle =
  name :: string
  steps :: "PickleStep list"

record TestStep =
  id :: string
  pickleStepId :: "string option"

record TestCase =
  testSteps :: "TestStep list option"

record TestCaseAttempt =
  testCase :: "TestCase option"
  pickle :: Pickle
  worstTestStepResult :: TestStepResult

record TestCaseStarted =
  id :: string

record TestCaseFinished =
  testCaseStartedId :: string

record TestStepStarted =
  testCaseStartedId :: string
  testStepId :: string

record TestStepFinished =
  testCaseStartedId :: string
  testStepId :: string
  testStepResult :: TestStepResult

text \<open>An envelope carries optional members; run start and run end carry nothing that is read.\<close>

record Envelope =
  testRunStarted :: bool
  testCaseStarted :: "TestCaseStarted option"
  testCaseFinished :: "TestCaseFinished option"
  testStepStarted :: "TestStepStarted option"
  testStepFinished :: "TestStepFinished option"
  testRunFinished :: bool

text \<open>
  \<^verbatim>\<open>eventDataCollector.getTestCaseAttempt\<close>: the runner's lookup from the identifier of a
  started case to its data, which may yield nothing.
\<close>

type_synonym EventDataCollector = "string \<Rightarrow> TestCaseAttempt option"

subsection \<open>The formatter\<close>

text \<open>The private fields of the class, and the texts handed to \<^verbatim>\<open>this.log\<close> so far.\<close>

record VerboseFormatter =
  passedCount :: nat
  failedCount :: nat
  skippedCount :: nat
  totalSteps :: nat
  startTime :: int
  scenariosPassed :: nat
  scenariosFailed :: nat
  scenariosSkipped :: nat
  totalScenarios :: nat
  logged :: "string list"

definition newFormatter :: VerboseFormatter where
  "newFormatter =
     \<lparr>passedCount = 0, failedCount = 0, skippedCount = 0, VerboseFormatter.totalSteps = 0,
      startTime = 0, scenariosPassed = 0, scenariosFailed = 0, scenariosSkipped = 0,
      VerboseFormatter.totalScenarios = 0, logged = []\<rparr>"

definition log :: "string \<Rightarrow> VerboseFormatter \<Rightarrow> VerboseFormatter" where
  "log s this = this\<lparr>logged := logged this @ [s]\<rparr>"

definition playIcon :: string where
  "playIcon = [CHR 0xE2, CHR 0x96, CHR 0xB6, CHR 0xEF, CHR 0xB8, CHR 0x8F]"
definition hourglass :: string where "hourglass = [CHR 0xE2, CHR 0x8F, CHR 0xB3]"
definition circledSlash :: string where "circledSlash = [CHR 0xE2, CHR 0x8A, CHR 0x98]"
definition warningSign :: string where
  "warningSign = [CHR 0xE2, CHR 0x9A, CHR 0xA0, CHR 0xEF, CHR 0xB8, CHR 0x8F]"

definition logTestCaseStarted ::
    "EventDataCollector \<Rightarrow> TestCaseStarted \<Rightarrow> VerboseFormatter \<Rightarrow> VerboseFormatter" where
  "logTestCaseStarted getTestCaseAttempt ev this =
     (case getTestCaseAttempt (TestCaseStarted.id ev) of
        None \<Rightarrow> this
      | Some tc \<Rightarrow> log (NL @ playIcon @ ''  Running: '' @ Pickle.name (pickle tc) @ NL) this)"

definition trackScenarioResult ::
    "EventDataCollector \<Rightarrow> TestCaseFinished \<Rightarrow> VerboseFormatter \<Rightarrow> VerboseFormatter" where
  "trackScenarioResult getTestCaseAttempt ev this =
     (case getTestCaseAttempt (TestCaseFinished.testCaseStartedId ev) of
        None \<Rightarrow> this
      | Some tc \<Rightarrow>
          (let this1 = this\<lparr>VerboseFormatter.totalScenarios :=
                              VerboseFormatter.totalScenarios this + 1\<rparr>;
               worstResult = worstTestStepResult tc;
               st = TestStepResult.status worstResult
           in if st = PASSED then this1\<lparr>scenariosPassed := scenariosPassed this1 + 1\<rparr>
              else if st = FAILED then this1\<lparr>scenariosFailed := scenariosFailed this1 + 1\<rparr>
              else if st = SKIPPED then this1\<lparr>scenariosSkipped := scenariosSkipped this1 + 1\<rparr>
              else this1))"

text \<open>
  The expression \<^verbatim>\<open>testCase.testCase?.testSteps?.find(s => s.id === testStepId)\<close>, which
  both step handlers evaluate.
\<close>

definition findTestStep :: "TestCaseAttempt \<Rightarrow> string \<Rightarrow> TestStep option" where
  "findTestStep tc stepId =
     (case testCase tc of
        None \<Rightarrow> None
      | Some c \<Rightarrow>
          (case testSteps c of
             None \<Rightarrow> None
           | Some ss \<Rightarrow> find (\<lambda>s. TestStep.id s = stepId) ss))"

definition logTestStepStarted ::
    "EventDataCollector \<Rightarrow> TestStepStarted \<Rightarrow> VerboseFormatter \<Rightarrow> VerboseFormatter" where
  "logTestStepStarted getTestCaseAttempt ev this =
     (case getTestCaseAttempt (TestStepStarted.testCaseStartedId ev) of
        None \<Rightarrow> this
      | Some tc \<Rightarrow>
          (case findTestStep tc (TestStepStarted.testStepId ev) of
             None \<Rightarrow> this
           | Some testStep \<Rightarrow>
               (case pickleStepId testStep of
                  None \<Rightarrow> this
                | Some psid \<Rightarrow>
                    if psid = '''' then this
                    else (case find (\<lambda>s. PickleStep.id s = psid) (Pickle.steps (pickle tc)) of
                            None \<Rightarrow> this
                          | Some gherkinStep \<Rightarrow>
                              if text' gherkinStep = '''' then this
                              else log (''  '' @ hourglass @ '' '' @ text' gherkinStep) this))))"

definition getStatusIcon :: "TestStepResultStatus \<Rightarrow> string" where
  "getStatusIcon st =
     (if st = PASSED then checkMark
      else if st = FAILED then crossMark
      else if st = SKIPPED then circledSlash
      else warningSign)"

definition updateStepCounts :: "TestStepResultStatus \<Rightarrow> VerboseFormatter \<Rightarrow> VerboseFormatter" where
  "updateStepCounts st this =
     (let this1 = this\<lparr>VerboseFormatter.totalSteps := VerboseFormatter.totalSteps this + 1\<rparr>
      in if st = PASSED then this1\<lparr>passedCount := passedCount this1 + 1\<rparr>
         else if st = FAILED then this1\<lparr>failedCount := failedCount this1 + 1\<rparr>
         else if st = SKIPPED then this1\<lparr>skippedCount := skippedCount this1 + 1\<rparr>
         else this1)"

text \<open>Carriage return, then the escape sequence that clears to the end of the line.\<close>

definition clearLine :: string where
  "clearLine = [CHR 0x0D, CHR 0x1B] @ ''[K''"

definition logTestStepFinished ::
    "EventDataCollector \<Rightarrow> TestStepFinished \<Rightarrow> VerboseFormatter \<Rightarrow> VerboseFormatter" where
  "logTestStepFinished getTestCaseAttempt ev this =
     (case getTestCaseAttempt (TestStepFinished.testCaseStartedId ev) of
        None \<Rightarrow> this
      | Some tc \<Rightarrow>
          (case findTestStep tc (TestStepFinished.testStepId ev) of
             None \<Rightarrow> this
           | Some testStep \<Rightarrow>
               (case pickleStepId testStep of
                  None \<Rightarrow> this
                | Some psid \<Rightarrow>
                    if psid = '''' then this
                    else (case find (\<lambda>s. PickleStep.id s = psid) (Pickle.steps (pickle tc)) of
                            None \<Rightarrow> this
                          | Some gherkinStep \<Rightarrow>
                              if text' gherkinStep = '''' then this
                              else (let st = TestStepResult.status (testStepResult ev);
                                        icon = getStatusIcon st;
                                        this1 = updateStepCounts st this
                                    in log (clearLine @ ''  '' @ icon @ '' '' @ text' gherkinStep @ NL)
                                         this1)))))"

text \<open>\<^verbatim>\<open>logTestRunFinished\<close>; the argument \<open>now\<close> is what \<^verbatim>\<open>Date.now()\<close> returns.\<close>

definition logTestRunFinished :: "int \<Rightarrow> VerboseFormatter \<Rightarrow> VerboseFormatter" where
  "logTestRunFinished now this =
     (let dur = toFixed (jsDivide (of_int (now - startTime this)) 1000) 3;
          t1 = log (NL @ ''Test Execution Summary:'') this;
          t2 = log (NL @ natToString (VerboseFormatter.totalScenarios t1) @ '' scenarios (''
                    @ natToString (scenariosPassed t1) @ '' passed'') t1;
          t3 = (if scenariosFailed t2 > 0
                then log ('', '' @ natToString (scenariosFailed t2) @ '' failed'') t2 else t2);
          t4 = (if scenariosSkipped t3 > 0
                then log ('', '' @ natToString (scenariosSkipped t3) @ '' skipped'') t3 else t3);
          t5 = log ('')'' @ NL) t4;
          t6 = log (natToString (VerboseFormatter.totalSteps t5) @ '' steps (''
                    @ natToString (passedCount t5) @ '' passed'') t5;
          t7 = (if failedCount t6 > 0
                then log ('', '' @ natToString (failedCount t6) @ '' failed'') t6 else t6);
          t8 = (if skippedCount t7 > 0
                then log ('', '' @ natToString (skippedCount t7) @ '' skipped'') t7 else t7)
      in log ('')'' @ NL @ dur @ ''s'' @ NL) t8)"

text \<open>
  The listener on \<^verbatim>\<open>envelope\<close> registered by the constructor. Each delivery comes with the
  collector's data and the clock at that moment.
\<close>

definition onEnvelope ::
    "EventDataCollector \<Rightarrow> int \<Rightarrow> Envelope \<Rightarrow> VerboseFormatter \<Rightarrow> VerboseFormatter" where
  "onEnvelope getTestCaseAttempt now envelope this =
     (let t1 = (if testRunStarted envelope then this\<lparr>startTime := now\<rparr> else this);
          t2 = (case testCaseStarted envelope of
                  Some ev \<Rightarrow> logTestCaseStarted getTestCaseAttempt ev t1 | None \<Rightarrow> t1);
          t3 = (case testCaseFinished envelope of
                  Some ev \<Rightarrow> trackScenarioResult getTestCaseAttempt ev t2 | None \<Rightarrow> t2);
          t4 = (case testStepStarted envelope of
                  Some ev \<Rightarrow> logTestStepStarted getTestCaseAttempt ev t3 | None \<Rightarrow> t3);
          t5 = (case testStepFinished envelope of
                  Some ev \<Rightarrow> logTestStepFinished getTestCaseAttempt ev t4 | None \<Rightarrow> t4)
      in if testRunFinished envelope then logTestRunFinished now t5 else t5)"

text \<open>A run of the formatter over the deliveries of one test run, in order.\<close>

fun deliver ::
    "(EventDataCollector \<times> int \<times> Envelope) list \<Rightarrow> VerboseFormatter \<Rightarrow> VerboseFormatter" where
  "deliver [] this = this"
| "deliver ((c, now, envelope) # rest) this = deliver rest (onEnvelope c now envelope this)"

text \<open>
  The two queries of the event source: the data of a case, and the display text of a step of
  a case. The text is found through the test step's pickle step; a missing or empty link or
  text counts as not found, as the handlers test them for truthiness.
\<close>

definition resolveStepText :: "EventDataCollector \<Rightarrow> string \<Rightarrow> string \<Rightarrow> string option" where
  "resolveStepText getTestCaseAttempt caseId stepId =
     Option.bind (getTestCaseAttempt caseId) (\<lambda>tc.
       Option.bind (findTestStep tc stepId) (\<lambda>testStep.
         Option.bind (pickleStepId testStep) (\<lambda>psid.
           if psid = '''' then None
           else Option.bind (find (\<lambda>s. PickleStep.id s = psid) (Pickle.steps (pickle tc)))
                  (\<lambda>gherkinStep. if text' gherkinStep = '''' then None
                                  else Some (text' gherkinStep)))))"

text \<open>
  The number of deliveries whose finished step resolved, and so was counted, with a status
  other than passed, failed and skipped.
\<close>

fun unrecognizedSteps :: "(EventDataCollector \<times> int \<times> Envelope) list \<Rightarrow> nat" where
  "unrecognizedSteps [] = 0"
| "unrecognizedSteps ((c, now, envelope) # rest) =
     (case testStepFinished envelope of
        None \<Rightarrow> 0
      | Some ev \<Rightarrow>
          (if resolveStepText c (TestStepFinished.testCaseStartedId ev) (TestStepFinished.testStepId ev) \<noteq> None
              \<and> TestStepResult.status (testStepResult ev) \<notin> {PASSED, FAILED, SKIPPED}
           then 1 else 0))
     + unrecognizedSteps rest"

section \<open>Notions used in the statements\<close>





definition stepTotals :: "TestResults \<Rightarrow> nat \<times> rat \<times> nat \<times> nat \<times> nat" where
  "stepTotals r =
     (TestResults.totalSteps r, TestResults.duration r, passedSteps r, failedSteps r, skippedSteps r)"

definition balanced :: "FeatureSummary \<Rightarrow> bool" where
  "balanced e = (scenarios e = passed e + failed e + skipped e)"

definition consistentWith :: "FeatureSummary \<Rightarrow> TestResults \<Rightarrow> bool" where
  "consistentWith f r =
     (TestResults.totalScenarios r = sum_list (map scenarios (features r)) + scenarios f
      \<and> passedScenarios r = sum_list (map passed (features r)) + passed f
      \<and> failedScenarios r = sum_list (map failed (features r)) + failed f
      \<and> skippedScenarios r = sum_list (map skipped (features r)) + skipped f
      \<and> balanced f \<and> list_all balanced (features r))"

definition consistent :: "TestResults \<Rightarrow> bool" where
  "consistent r =
     (TestResults.totalScenarios r = sum_list (map scenarios (features r))
      \<and> passedScenarios r = sum_list (map passed (features r))
      \<and> failedScenarios r = sum_list (map failed (features r))
      \<and> skippedScenarios r = sum_list (map skipped (features r))
      \<and> list_all balanced (features r))"

text \<open>A small document: two features with scenarios, one with a background only.\<close>

definition stepWith :: "string \<Rightarrow> rat option \<Rightarrow> CucumberStep" where
  "stepWith st d =
     \<lparr>result = \<lparr>StepResult.status = st, StepResult.duration = d, error_message = None\<rparr>\<rparr>"

definition scenarioWith :: "string \<Rightarrow> string \<Rightarrow> CucumberStep list \<Rightarrow> CucumberScenario" where
  "scenarioWith n t ss =
     \<lparr>CucumberScenario.name = n, type = t, CucumberScenario.steps = ss, tags = None\<rparr>"

definition sampleDocument :: "CucumberFeature list" where
  "sampleDocument =
     [\<lparr>CucumberFeature.name = ''Login'',
       elements =
         [scenarioWith ''Open the page'' ''background'' [stepWith ''passed'' (Some 5)],
          scenarioWith ''Valid login'' ''scenario''
            [stepWith ''passed'' (Some 1000000000), stepWith ''passed'' (Some 500000000)],
          scenarioWith ''Invalid login'' ''scenario''
            [stepWith ''passed'' (Some 750000000), stepWith ''failed'' (Some 250000000),
             stepWith ''skipped'' None]]\<rparr>,
      \<lparr>CucumberFeature.name = ''Setup'',
       elements = [scenarioWith ''Prepare'' ''background'' [stepWith ''passed'' (Some 7)]]\<rparr>,
      \<lparr>CucumberFeature.name = ''Search'',
       elements =
         [scenarioWith ''Find a product'' ''scenario''
            [stepWith ''passed'' (Some 2000000000), stepWith ''undefined'' None]]\<rparr>]"

text \<open>A text occurs in another one.\<close>

definition occursIn :: "string \<Rightarrow> string \<Rightarrow> bool" where
  "occursIn l s = (\<exists>pre post. s = pre @ l @ post)"

text \<open>The sum of the three named step counters.\<close>

definition stepSum :: "VerboseFormatter \<Rightarrow> nat" where
  "stepSum this = passedCount this + failedCount this + skippedCount this"

text \<open>A run of one case with two steps and a hook, with events the collector cannot resolve.\<close>

definition sampleAttempt :: TestCaseAttempt where
  "sampleAttempt =
     \<lparr>testCase = Some \<lparr>testSteps = Some
         [\<lparr>TestStep.id = ''ts-1'', pickleStepId = Some ''ps-1''\<rparr>,
          \<lparr>TestStep.id = ''ts-2'', pickleStepId = Some ''ps-2''\<rparr>,
          \<lparr>TestStep.id = ''hook-1'', pickleStepId = None\<rparr>]\<rparr>,
      pickle = \<lparr>Pickle.name = ''Valid login'',
                Pickle.steps = [\<lparr>PickleStep.id = ''ps-1'', text' = ''I am on the login page''\<rparr>,
                                \<lparr>PickleStep.id = ''ps-2'', text' = ''I log in''\<rparr>]\<rparr>,
      worstTestStepResult = \<lparr>TestStepResult.status = UNDEFINED\<rparr>\<rparr>"

definition sampleCollector :: EventDataCollector where
  "sampleCollector caseId = (if caseId = ''case-1'' then Some sampleAttempt else None)"

definition noEnvelope :: Envelope where
  "noEnvelope =
     \<lparr>testRunStarted = False, testCaseStarted = None, testCaseFinished = None,
      testStepStarted = None, testStepFinished = None, testRunFinished = False\<rparr>"

definition stepFinished :: "string \<Rightarrow> string \<Rightarrow> TestStepResultStatus \<Rightarrow> TestStepFinished" where
  "stepFinished caseId stepId st =
     \<lparr>TestStepFinished.testCaseStartedId = caseId, TestStepFinished.testStepId = stepId,
      testStepResult = \<lparr>TestStepResult.status = st\<rparr>\<rparr>"

definition sampleRun :: "(EventDataCollector \<times> int \<times> Envelope) list" where
  "sampleRun =
     [(sampleCollector, 1000, noEnvelope\<lparr>testRunStarted := True\<rparr>),
      (sampleCollector, 1001,
         noEnvelope\<lparr>testCaseStarted := Some \<lparr>TestCaseStarted.id = ''case-1''\<rparr>\<rparr>),
      (sampleCollector, 1002,
         noEnvelope\<lparr>testStepStarted := Some
           \<lparr>TestStepStarted.testCaseStartedId = ''case-1'', TestStepStarted.testStepId = ''ts-1''\<rparr>\<rparr>),
      (sampleCollector, 1500,
         noEnvelope\<lparr>testStepFinished := Some (stepFinished ''case-1'' ''ts-1'' PASSED)\<rparr>),
      (sampleCollector, 1600,
         noEnvelope\<lparr>testStepFinished := Some (stepFinished ''case-1'' ''ts-2'' UNDEFINED)\<rparr>),
      (sampleCollector, 1700,
         noEnvelope\<lparr>testStepFinished := Some (stepFinished ''case-1'' ''hook-1'' PASSED)\<rparr>),
      (sampleCollector, 1800,
         noEnvelope\<lparr>testStepFinished := Some (stepFinished ''case-7'' ''ts-1'' FAILED)\<rparr>),
      (sampleCollector, 1900,
         noEnvelope\<lparr>testCaseFinished := Some \<lparr>TestCaseFinished.testCaseStartedId = ''case-1''\<rparr>\<rparr>),
      (sampleCollector, 2250, noEnvelope\<lparr>testRunFinished := True\<rparr>)]"

section \<open>Properties of the Summarizer\<close>

lemma some_iff: "some p xs \<longleftrightarrow> (\<exists>x \<in> set xs. p x)"
  by (induction xs) auto

text \<open>
  Claim C1. The aggregate status of a scenario is failed if any of its steps has status
  failed, otherwise skipped if any step has status skipped, otherwise passed. In
  particular a scenario without steps, or whose steps all carry a status other than
  passed, failed and skipped, is passed.
\<close>

theorem determineScenarioStatus_worst_first:
  "determineScenarioStatus stps =
     (if \<exists>s \<in> set stps. StepResult.status (result s) = ''failed'' then Failed
      else if \<exists>s \<in> set stps. StepResult.status (result s) = ''skipped'' then Skipped
      else Passed)
   \<and> determineScenarioStatus [] = Passed
   \<and> ((\<forall>s \<in> set stps. StepResult.status (result s) \<notin> {''passed'', ''failed'', ''skipped''})
        \<longrightarrow> determineScenarioStatus stps = Passed)"
  by (auto simp: determineScenarioStatus_def some_iff)

theorem determineScenarioStatus_worst_first_witness:
  "StepResult.status (result (stepWith ''undefined'' None)) \<notin> {''passed'', ''failed'', ''skipped''}
   \<and> StepResult.status (result (stepWith ''pending'' None)) \<notin> {''passed'', ''failed'', ''skipped''}
   \<and> determineScenarioStatus [stepWith ''undefined'' None, stepWith ''pending'' None] = Passed
   \<and> determineScenarioStatus
        [stepWith ''passed'' None, stepWith ''skipped'' None, stepWith ''passed'' None] = Skipped
   \<and> determineScenarioStatus
        [stepWith ''passed'' None, stepWith ''failed'' None, stepWith ''skipped'' None] = Failed
   \<and> determineScenarioStatus [stepWith ''passed'' None, stepWith ''passed'' None] = Passed"
  using determineScenarioStatus_worst_first
          [of "[stepWith ''undefined'' None, stepWith ''pending'' None]"]
        determineScenarioStatus_worst_first
          [of "[stepWith ''passed'' None, stepWith ''skipped'' None, stepWith ''passed'' None]"]
        determineScenarioStatus_worst_first
          [of "[stepWith ''passed'' None, stepWith ''failed'' None, stepWith ''skipped'' None]"]
        determineScenarioStatus_worst_first
          [of "[stepWith ''passed'' None, stepWith ''passed'' None]"]
  by (simp add: stepWith_def)

lemma summarize_sampleDocument:
  "summarize sampleDocument =
     \<lparr>TestResults.totalScenarios = 3, passedScenarios = 2, failedScenarios = 1,
      skippedScenarios = 0, TestResults.totalSteps = 7, passedSteps = 4, failedSteps = 1,
      skippedSteps = 1, TestResults.duration = 4500000000,
      features =
        [\<lparr>FeatureSummary.name = ''Login'', scenarios = 2, passed = 1, failed = 1, skipped = 0\<rparr>,
         \<lparr>FeatureSummary.name = ''Search'', scenarios = 1, passed = 1, failed = 0, skipped = 0\<rparr>]\<rparr>"
  by code_simp

lemma processStep_scenario_fields [simp]:
  "TestResults.totalScenarios (processStep s r) = TestResults.totalScenarios r"
  "passedScenarios (processStep s r) = passedScenarios r"
  "failedScenarios (processStep s r) = failedScenarios r"
  "skippedScenarios (processStep s r) = skippedScenarios r"
  "features (processStep s r) = features r"
  by (simp_all add: processStep_def Let_def)


lemma fold_processStep_scenario_fields [simp]:
  "TestResults.totalScenarios (fold processStep ss r) = TestResults.totalScenarios r"
  "passedScenarios (fold processStep ss r) = passedScenarios r"
  "failedScenarios (fold processStep ss r) = failedScenarios r"
  "skippedScenarios (fold processStep ss r) = skippedScenarios r"
  "features (fold processStep ss r) = features r"
  by (induction ss arbitrary: r; simp)+




lemma updateScenarioCounts_fields [simp]:
  "features (snd (updateScenarioCounts st f r)) = features r"
  "FeatureSummary.name (fst (updateScenarioCounts st f r)) = FeatureSummary.name f"
  "scenarios (fst (updateScenarioCounts st f r)) = scenarios f"
  "TestResults.totalScenarios (snd (updateScenarioCounts st f r)) = TestResults.totalScenarios r"
  "stepTotals (snd (updateScenarioCounts st f r)) = stepTotals r"
  by (simp_all add: updateScenarioCounts_def stepTotals_def)

lemma updateScenarioCounts_counts:
  "passed (fst (updateScenarioCounts st f r)) = passed f + (if st = Passed then 1 else 0)"
  "failed (fst (updateScenarioCounts st f r)) = failed f + (if st = Failed then 1 else 0)"
  "skipped (fst (updateScenarioCounts st f r)) = skipped f + (if st = Skipped then 1 else 0)"
  "passedScenarios (snd (updateScenarioCounts st f r)) = passedScenarios r + (if st = Passed then 1 else 0)"
  "failedScenarios (snd (updateScenarioCounts st f r)) = failedScenarios r + (if st = Failed then 1 else 0)"
  "skippedScenarios (snd (updateScenarioCounts st f r)) = skippedScenarios r + (if st = Skipped then 1 else 0)"
  by (cases st; simp add: updateScenarioCounts_def)+

lemma scenarioLoopBody_skip:
  "type sc \<noteq> ''scenario'' \<Longrightarrow> scenarioLoopBody sc st = st"
  by (cases st) (simp add: scenarioLoopBody_def)

lemma scenarioLoopBody_fixed [simp]:
  "features (snd (scenarioLoopBody sc st)) = features (snd st)"
  "FeatureSummary.name (fst (scenarioLoopBody sc st)) = FeatureSummary.name (fst st)"
  by (cases st; simp add: scenarioLoopBody_def Let_def)+


lemma fold_scenarioLoopBody_filter:
  "fold scenarioLoopBody es st = fold scenarioLoopBody (filter (\<lambda>e. type e = ''scenario'') es) st"
  by (induction es arbitrary: st) (simp_all add: scenarioLoopBody_skip)

lemma fold_scenarioLoopBody_fixed [simp]:
  "features (snd (fold scenarioLoopBody es st)) = features (snd st)"
  "FeatureSummary.name (fst (fold scenarioLoopBody es st)) = FeatureSummary.name (fst st)"
  by (induction es arbitrary: st; simp)+

lemma fold_scenarioLoopBody_scenarios:
  "scenarios (fst (fold scenarioLoopBody es st)) =
     scenarios (fst st) + length (filter (\<lambda>e. type e = ''scenario'') es)"
proof (induction es arbitrary: st)
  case Nil
  show ?case by simp
next
  case (Cons e es)
  have "scenarios (fst (scenarioLoopBody e st)) =
          scenarios (fst st) + (if type e = ''scenario'' then 1 else 0)"
    by (cases st) (simp add: scenarioLoopBody_def Let_def)
  with Cons show ?case by simp
qed




lemma featureLoopBody_no_scenario:
  assumes "\<forall>e \<in> set (elements f). type e \<noteq> ''scenario''"
  shows "featureLoopBody f r = r"
proof -
  have "filter (\<lambda>e. type e = ''scenario'') (elements f) = []"
    using assms by (simp add: filter_empty_conv)
  then have "fold scenarioLoopBody (elements f) st = st" for st
    using fold_scenarioLoopBody_filter [of "elements f" st] by simp
  then show ?thesis by (simp add: featureLoopBody_def)
qed

lemma featureLoopBody_filter:
  "featureLoopBody (f\<lparr>elements := filter (\<lambda>e. type e = ''scenario'') (elements f)\<rparr>) r
     = featureLoopBody f r"
  using fold_scenarioLoopBody_filter [of "elements f"]
  by (simp add: featureLoopBody_def)

lemma featureLoopBody_features:
  "map FeatureSummary.name (features (featureLoopBody f r)) =
     map FeatureSummary.name (features r)
     @ (if \<exists>e \<in> set (elements f). type e = ''scenario'' then [CucumberFeature.name f] else [])"
proof -
  let ?f0 = "\<lparr>FeatureSummary.name = CucumberFeature.name f,
                 scenarios = 0, passed = 0, failed = 0, skipped = 0\<rparr>"
  obtain f' r' where st: "fold scenarioLoopBody (elements f) (?f0, r) = (f', r')"
    by (cases "fold scenarioLoopBody (elements f) (?f0, r)")
  have a: "features r' = features r" "FeatureSummary.name f' = CucumberFeature.name f"
    using fold_scenarioLoopBody_fixed [of "elements f" "(?f0, r)"] st by simp_all
  have b: "scenarios f' = length (filter (\<lambda>e. type e = ''scenario'') (elements f))"
    using fold_scenarioLoopBody_scenarios [of "elements f" "(?f0, r)"] st by simp
  have c: "0 < scenarios f' \<longleftrightarrow> (\<exists>e \<in> set (elements f). type e = ''scenario'')"
    unfolding b by (simp add: filter_empty_conv)
  show ?thesis
    using st a c by (simp add: featureLoopBody_def)
qed

lemma fold_featureLoopBody_features:
  "map FeatureSummary.name (features (fold featureLoopBody fs r)) =
     map FeatureSummary.name (features r)
     @ map CucumberFeature.name (filter (\<lambda>f. \<exists>e \<in> set (elements f). type e = ''scenario'') fs)"
  by (induction fs arbitrary: r) (simp_all add: featureLoopBody_features)



text \<open>
  Claim C3. Elements whose type is not \<open>scenario\<close> are excluded from all counting: the
  summary is that of the document without them. A feature without any element of type
  \<open>scenario\<close> leaves the summary as if the feature were not in the document, so it is absent
  from the breakdown and adds nothing to any total. The features with a countable scenario
  appear in the breakdown in input order.
\<close>

theorem summarize_ignores_non_scenarios:
  "summarize fs =
     summarize (map (\<lambda>f. f\<lparr>elements := filter (\<lambda>e. type e = ''scenario'') (elements f)\<rparr>) fs)
   \<and> ((\<forall>e \<in> set (elements f). type e \<noteq> ''scenario'') \<longrightarrow>
         summarize (fs1 @ f # fs2) = summarize (fs1 @ fs2))
   \<and> map FeatureSummary.name (features (summarize fs)) =
       map CucumberFeature.name (filter (\<lambda>f. \<exists>e \<in> set (elements f). type e = ''scenario'') fs)"
proof -
  have a: "fold featureLoopBody
             (map (\<lambda>f. f\<lparr>elements := filter (\<lambda>e. type e = ''scenario'') (elements f)\<rparr>) gs) r
           = fold featureLoopBody gs r" for gs r
    by (induction gs arbitrary: r) (simp_all add: featureLoopBody_filter)
  have c: "map FeatureSummary.name (features (summarize fs)) =
       map CucumberFeature.name (filter (\<lambda>f. \<exists>e \<in> set (elements f). type e = ''scenario'') fs)"
    by (simp add: summarize_def fold_featureLoopBody_features initialResults_def)
  show ?thesis
    using a c by (simp add: summarize_def featureLoopBody_no_scenario)
qed

theorem summarize_ignores_non_scenarios_witness:
  "map type (elements (sampleDocument ! 1)) = [''background'']
   \<and> summarize ([sampleDocument ! 0] @ sampleDocument ! 1 # [sampleDocument ! 2])
       = summarize ([sampleDocument ! 0] @ [sampleDocument ! 2])
   \<and> map FeatureSummary.name (features (summarize sampleDocument)) = [''Login'', ''Search'']"
proof -
  have h: "\<forall>e \<in> set (elements (sampleDocument ! 1)). type e \<noteq> ''scenario''"
    by (simp add: sampleDocument_def scenarioWith_def)
  have n: "map FeatureSummary.name (features (summarize sampleDocument)) = [''Login'', ''Search'']"
    by (simp add: summarize_sampleDocument)
  have t: "map type (elements (sampleDocument ! 1)) = [''background'']"
    by (simp add: sampleDocument_def scenarioWith_def)
  from h n t summarize_ignores_non_scenarios
             [of sampleDocument "sampleDocument ! 1" "[sampleDocument ! 0]" "[sampleDocument ! 2]"]
  show ?thesis by blast
qed

lemma scenarioLoopBody_consistentWith:
  assumes "consistentWith f r"
  shows "consistentWith (fst (scenarioLoopBody sc (f, r))) (snd (scenarioLoopBody sc (f, r)))"
proof (cases "type sc = ''scenario''")
  case False
  with assms show ?thesis by (simp add: scenarioLoopBody_skip)
next
  case True
  with assms show ?thesis
    by (cases "determineScenarioStatus (CucumberScenario.steps sc)")
       (simp_all add: scenarioLoopBody_def Let_def consistentWith_def balanced_def
          updateScenarioCounts_def)
qed

lemma fold_scenarioLoopBody_consistentWith:
  "consistentWith (fst st) (snd st) \<Longrightarrow>
   consistentWith (fst (fold scenarioLoopBody es st)) (snd (fold scenarioLoopBody es st))"
proof (induction es arbitrary: st)
  case Nil
  then show ?case by simp
next
  case (Cons e es)
  from Cons.prems have "consistentWith (fst (scenarioLoopBody e st)) (snd (scenarioLoopBody e st))"
    using scenarioLoopBody_consistentWith [of "fst st" "snd st" e] by simp
  then show ?case using Cons.IH by simp
qed

lemma featureLoopBody_consistent:
  assumes "consistent r"
  shows "consistent (featureLoopBody f r)"
proof -
  let ?f0 = "\<lparr>FeatureSummary.name = CucumberFeature.name f,
                 scenarios = 0, passed = 0, failed = 0, skipped = 0\<rparr>"
  obtain f' r' where st: "fold scenarioLoopBody (elements f) (?f0, r) = (f', r')"
    by (cases "fold scenarioLoopBody (elements f) (?f0, r)")
  have "consistentWith ?f0 r"
    using assms by (simp add: consistent_def consistentWith_def balanced_def)
  then have inv: "consistentWith f' r'"
    using fold_scenarioLoopBody_consistentWith [of "(?f0, r)" "elements f"] st by simp
  show ?thesis
  proof (cases "0 < scenarios f'")
    case True
    with st inv show ?thesis
      by (simp add: featureLoopBody_def consistent_def consistentWith_def)
  next
    case False
    with st inv show ?thesis
      by (simp add: featureLoopBody_def consistent_def consistentWith_def balanced_def)
  qed
qed

lemma fold_featureLoopBody_consistent:
  "consistent r \<Longrightarrow> consistent (fold featureLoopBody fs r)"
  by (induction fs arbitrary: r) (simp_all add: featureLoopBody_consistent)

text \<open>
  Claim C10. The global scenario counters are the sums of the breakdown entries (total,
  passed, failed and skipped), and in every breakdown entry the scenario count is the sum of
  its passed, failed and skipped counts.
\<close>

theorem summarize_breakdown_sums:
  "TestResults.totalScenarios (summarize fs) = sum_list (map scenarios (features (summarize fs)))
   \<and> passedScenarios (summarize fs) = sum_list (map passed (features (summarize fs)))
   \<and> failedScenarios (summarize fs) = sum_list (map failed (features (summarize fs)))
   \<and> skippedScenarios (summarize fs) = sum_list (map skipped (features (summarize fs)))
   \<and> (\<forall>e \<in> set (features (summarize fs)). scenarios e = passed e + failed e + skipped e)"
proof -
  have "consistent initialResults"
    by (simp add: consistent_def initialResults_def)
  then have "consistent (summarize fs)"
    unfolding summarize_def by (rule fold_featureLoopBody_consistent)
  then show ?thesis
    by (simp add: consistent_def list_all_iff balanced_def)
qed

theorem summarize_breakdown_sums_witness:
  "list_all (\<lambda>e. scenarios e = passed e + failed e + skipped e) (features (summarize sampleDocument))
   \<and> TestResults.totalScenarios (summarize sampleDocument) = 3
   \<and> sum_list (map scenarios (features (summarize sampleDocument))) = 3
   \<and> passedScenarios (summarize sampleDocument) = 2
   \<and> sum_list (map passed (features (summarize sampleDocument))) = 2"
  using summarize_breakdown_sums [of sampleDocument]
  by (simp add: summarize_sampleDocument)

text \<open>
  Claim C9. When the report file does not exist, \<^const>\<open>parseTestResults\<close> ends with the error
  and no summary; \<^const>\<open>generatePRComment\<close> passes the error on, and the script ends with
  exit code 1 without writing the comment.
\<close>

theorem parseTestResults_missing_report:
  "fs reportPath = None \<longrightarrow>
     parseTestResults JSON_parse fs =
       Inl (Error ''Report file not found: test-results/cucumber-report.json'')
     \<and> (\<forall>summary. parseTestResults JSON_parse fs \<noteq> Inr summary)
     \<and> generatePRComment JSON_parse fs =
         Inl (Error ''Report file not found: test-results/cucumber-report.json'')
     \<and> runScript JSON_parse fs = (1, fs)"
  by (simp add: parseTestResults_def existsSync_def generatePRComment_def runScript_def reportPath_def)

theorem parseTestResults_missing_report_witness:
  "Map.empty reportPath = None
   \<and> parseTestResults (\<lambda>content. Inr sampleDocument) Map.empty =
       Inl (Error ''Report file not found: test-results/cucumber-report.json'')
   \<and> runScript (\<lambda>content. Inr sampleDocument) Map.empty = (1, Map.empty)"
  using parseTestResults_missing_report [of Map.empty "\<lambda>content. Inr sampleDocument"]
  by simp

section \<open>Properties of the number texts and the report\<close>

subsection \<open>Rounding to a double\<close>

lemma pow2_less_imp: "(2 :: rat) powi a < 2 powi b \<Longrightarrow> a < b"
proof (rule ccontr)
  assume l: "(2 :: rat) powi a < 2 powi b" and "\<not> a < b"
  then have "b \<le> a" by simp
  then have "(2 :: rat) powi b \<le> 2 powi a" by (rule power_int_increasing) simp
  with l show False by simp
qed


lemma bitLength_bounds:
  "0 < n \<Longrightarrow> 2 ^ (bitLength n - 1) \<le> n \<and> n < 2 ^ bitLength n"
proof (induction n rule: bitLength.induct)
  case (1 n)
  show ?case
  proof (cases "n div 2 = 0")
    case True
    with "1.prems" have "n = 1" by (simp add: div_eq_0_iff) 
    then show ?thesis by (simp add: bitLength.simps)
  next
    case False
    then have pos: "0 < n div 2" by simp
    from "1.IH" [OF _ pos] "1.prems"
    have ih: "2 ^ (bitLength (n div 2) - 1) \<le> n div 2" "n div 2 < 2 ^ bitLength (n div 2)"
      by simp_all
    have b: "bitLength n = Suc (bitLength (n div 2))"
      using "1.prems" by (subst bitLength.simps) simp
    have c: "0 < bitLength (n div 2)"
      using pos by (subst bitLength.simps) simp
    then have d: "bitLength (n div 2) = Suc (bitLength (n div 2) - 1)" by simp
    have "2 ^ bitLength (n div 2) \<le> 2 * (n div 2)"
      by (subst d) (use ih(1) in simp)
    then have lo: "2 ^ bitLength (n div 2) \<le> n" by linarith
    have "n < 2 * (n div 2) + 2" by linarith
    also have "\<dots> \<le> 2 * 2 ^ bitLength (n div 2)" using ih(2) by simp
    finally have hi: "n < 2 ^ Suc (bitLength (n div 2))" by simp
    from lo hi show ?thesis unfolding b by simp
  qed
qed

lemma floor_bitLength:
  fixes y :: rat
  assumes "1 \<le> y"
  shows "2 ^ (bitLength (nat \<lfloor>y\<rfloor>) - 1) \<le> y \<and> y < 2 ^ bitLength (nat \<lfloor>y\<rfloor>)"
proof -
  define n where "n = nat \<lfloor>y\<rfloor>"
  have f: "1 \<le> \<lfloor>y\<rfloor>" using assms by (simp add: le_floor_iff)
  then have n: "0 < n" "of_nat n = (of_int \<lfloor>y\<rfloor> :: rat)" by (simp_all add: n_def)
  from bitLength_bounds [OF n(1)]
  have b: "2 ^ (bitLength n - 1) \<le> n" "n < 2 ^ bitLength n" by simp_all
  have "(2 :: rat) ^ (bitLength n - 1) = of_nat (2 ^ (bitLength n - 1))" by simp
  also have "\<dots> \<le> of_nat n" using b(1) by (simp only: of_nat_le_iff)
  also have "\<dots> \<le> y" unfolding n(2) by (rule of_int_floor_le)
  finally have lo: "2 ^ (bitLength n - 1) \<le> y" .
  have "Suc n \<le> 2 ^ bitLength n" using b(2) by simp
  then have "(of_nat (Suc n) :: rat) \<le> of_nat (2 ^ bitLength n)" by (simp only: of_nat_le_iff)
  then have "(of_int \<lfloor>y\<rfloor> :: rat) + 1 \<le> 2 ^ bitLength n" using n(2) by simp
  moreover have "y < of_int \<lfloor>y\<rfloor> + 1" using floor_correct [of y] by simp
  ultimately have hi: "y < 2 ^ bitLength n" by linarith
  from lo hi show ?thesis unfolding n_def by simp
qed

lemma binade_ge_one:
  assumes "1 \<le> x"
  shows "2 powi binade x \<le> x \<and> x < 2 powi (binade x + 1)"
proof -
  define b where "b = bitLength (nat \<lfloor>x\<rfloor>)"
  from floor_bitLength [OF assms] have fb: "2 ^ (b - 1) \<le> x" "x < 2 ^ b" by (simp_all add: b_def)
  have "0 < b"
  proof (rule ccontr)
    assume "\<not> 0 < b" with fb(2) assms show False by simp
  qed
  then have e1: "int b - 1 + 1 = int b" and e2: "int b - 1 = int (b - 1)" by simp_all
  have e: "binade x = int b - 1" using assms by (simp add: binade_def b_def)
  have p1: "(2 :: rat) powi (int (b - 1)) = 2 ^ (b - 1)" by (rule power_int_of_nat)
  have p2: "(2 :: rat) powi (int b) = 2 ^ b" by (rule power_int_of_nat)
  show ?thesis unfolding e e1 unfolding e2 p1 p2 using fb by blast
qed

lemma binade_less_one:
  assumes "0 < x" "x < 1"
  shows "2 powi binade x \<le> x \<and> x < 2 powi (binade x + 1)"
proof -
  define y where "y = 1 / x"
  define b where "b = bitLength (nat \<lfloor>y\<rfloor>)"
  define k where "k = b - 1"
  have y: "1 \<le> y" "0 < y" "x = 1 / y" using assms by (simp_all add: y_def)
  from floor_bitLength [OF y(1)] have fb: "2 ^ k \<le> y" "y < 2 ^ b" by (simp_all add: b_def k_def)
  have "0 < b"
  proof (rule ccontr)
    assume "\<not> 0 < b" with fb(2) y(1) show False by simp
  qed
  then have bk: "b = Suc k" by (simp add: k_def)
  have p: "(0 :: rat) < 2 ^ k" "(0 :: rat) < 2 ^ b" by simp_all
  have "1 / 2 ^ b < 1 / y" using frac_less2 [of 1 1 y "2 ^ b"] fb(2) y(2) by simp
  then have xlo: "1 / 2 ^ b < x" by (simp only: y(3))
  have "1 / y \<le> 1 / 2 ^ k" using frac_le [of 1 1 "2 ^ k" y] fb(1) p(1) by simp
  then have xhi: "x \<le> 1 / 2 ^ k" by (simp only: y(3))
  have "\<not> 1 \<le> x" using assms(2) by simp
  then have e: "binade x = (if x * 2 ^ k = 1 then - int k else - int k - 1)"
    unfolding binade_def Let_def y_def [symmetric] b_def [symmetric] k_def [symmetric] by simp
  have m1: "(2 :: rat) powi (- int k) = 1 / 2 ^ k"
    by (simp only: power_int_minus_divide power_int_of_nat)
  have "- int k - 1 = - int b" by (simp add: bk)
  then have m2: "(2 :: rat) powi (- int k - 1) = 1 / 2 ^ b"
    by (simp only: power_int_minus_divide power_int_of_nat)
  have m3: "- int k - 1 + 1 = - int k" by simp
  show ?thesis
  proof (cases "x * 2 ^ k = 1")
    case True
    then have "x = 1 / 2 ^ k" using p(1) by (simp add: eq_divide_eq)
    then have xe: "x = 2 powi (- int k)" by (simp only: m1)
    have lt: "(2 :: rat) powi (- int k) < 2 powi (- int k + 1)"
      by (rule power_int_strict_increasing) simp_all
    have "binade x = - int k" unfolding e using True by simp
    then show ?thesis using xe lt by simp
  next
    case False
    then have "x \<noteq> 1 / 2 ^ k" using p(1) by (simp add: eq_divide_eq)
    with xhi have "x < 1 / 2 ^ k" by simp
    then have a: "x < 2 powi (- int k - 1 + 1)" by (simp only: m3 m1)
    have b: "2 powi (- int k - 1) \<le> x" using xlo by (simp only: m2 less_imp_le)
    have "binade x = - int k - 1" unfolding e using False by simp
    then show ?thesis using a b by simp
  qed
qed

lemma binade_bounds:
  assumes "0 < x"
  shows "2 powi binade x \<le> x \<and> x < 2 powi (binade x + 1)"
proof (cases "1 \<le> x")
  case True
  then show ?thesis by (rule binade_ge_one)
next
  case False
  then have "x < 1" by simp
  with assms show ?thesis by (rule binade_less_one)
qed

lemma binade_unique:
  assumes "0 < x" "2 powi e \<le> x" "x < 2 powi (e + 1)"
  shows "binade x = e"
proof -
  from binade_bounds [OF assms(1)]
  have b: "2 powi binade x \<le> x" "x < 2 powi (binade x + 1)" by simp_all
  have "(2 :: rat) powi e < 2 powi (binade x + 1)" using assms(2) b(2) by linarith
  then have 1: "e < binade x + 1" by (rule pow2_less_imp)
  have "(2 :: rat) powi binade x < 2 powi (e + 1)" using assms(3) b(1) by linarith
  then have 2: "binade x < e + 1" by (rule pow2_less_imp)
  from 1 2 show ?thesis by simp
qed

lemma roundHalfEven_near: "\<bar>of_int (roundHalfEven y) - y\<bar> \<le> 1 / 2"
proof -
  have "of_int \<lfloor>y\<rfloor> \<le> y" "y < of_int \<lfloor>y\<rfloor> + 1" using floor_correct [of y] by simp_all
  then show ?thesis by (auto simp: roundHalfEven_def Let_def)
qed

lemma roundHalfEven_eqI:
  assumes "\<bar>y - of_int m\<bar> < 1 / 2"
  shows "roundHalfEven y = m"
proof -
  have "\<bar>of_int (roundHalfEven y) - y\<bar> \<le> 1 / 2" by (rule roundHalfEven_near)
  with assms have "\<bar>(of_int (roundHalfEven y) :: rat) - of_int m\<bar> < 1" by linarith
  then have "\<bar>(of_int (roundHalfEven y - m) :: rat)\<bar> < 1" by simp
  then have "\<bar>roundHalfEven y - m\<bar> < 1" by (simp only: of_int_abs [symmetric] of_int_less_1_iff)
  then show ?thesis by simp
qed

lemma roundHalfEven_of_int [simp]: "roundHalfEven (of_int m) = m"
  by (rule roundHalfEven_eqI) simp

lemma roundToDouble_eqI:
  assumes "0 < x" "2 powi e \<le> x" "x < 2 powi (e + 1)" "- 1022 \<le> e"
    and "\<bar>x / 2 powi (e - 52) - of_int m\<bar> < 1 / 2"
  shows "roundToDouble x = of_int m * 2 powi (e - 52)"
proof -
  have b: "binade x = e" using assms(1-3) by (rule binade_unique)
  have k: "max (e - 52) (- 1074) = e - 52" using assms(4) by simp
  have r: "roundHalfEven (x / 2 powi (e - 52)) = m" using assms(5) by (rule roundHalfEven_eqI)
  show ?thesis using assms(1) by (simp add: roundToDouble_def Let_def b k r)
qed

lemma roundToDouble_error:
  assumes "2 powi (- 1022) \<le> x"
  shows "\<bar>roundToDouble x - x\<bar> \<le> x / 2 ^ 53"
proof -
  have "(0 :: rat) < 2 powi (- 1022)" by (rule zero_less_power_int) simp
  with assms have x: "0 < x" by linarith
  define e where "e = binade x"
  from binade_bounds [OF x] have b: "2 powi e \<le> x" "x < 2 powi (e + 1)" by (simp_all add: e_def)
  have "(2 :: rat) powi (- 1022) < 2 powi (e + 1)" using assms b(2) by linarith
  then have "- 1022 < e + 1" by (rule pow2_less_imp)
  then have k: "max (e - 52) (- 1074) = e - 52" by simp
  define u where "u = (2 :: rat) powi (e - 52)"
  have u: "0 < u" by (simp add: u_def)
  define m where "m = roundHalfEven (x / u)"
  have fl: "roundToDouble x = of_int m * u"
    using x by (simp add: roundToDouble_def Let_def e_def [symmetric] k u_def m_def)
  have "\<bar>of_int m - x / u\<bar> \<le> 1 / 2" unfolding m_def by (rule roundHalfEven_near)
  then have "\<bar>of_int m - x / u\<bar> * u \<le> 1 / 2 * u" using u by (simp only: mult_le_cancel_right_pos)
  moreover have "\<bar>of_int m - x / u\<bar> * u = \<bar>of_int m * u - x\<bar>"
  proof -
    have "of_int m * u - x = (of_int m - x / u) * u" using u by (simp add: left_diff_distrib)
    then have "\<bar>of_int m * u - x\<bar> = \<bar>of_int m - x / u\<bar> * \<bar>u\<bar>" by (simp only: abs_mult)
    with u show ?thesis by simp
  qed
  ultimately have 1: "\<bar>of_int m * u - x\<bar> \<le> u / 2" by simp
  have "u = 2 powi e / 2 ^ 52"
    by (simp add: u_def power_int_diff)
  then have "u / 2 = 2 powi e / 2 ^ 53" by simp
  also have "\<dots> \<le> x / 2 ^ 53" using b(1) by (simp add: divide_right_mono)
  finally show ?thesis using 1 fl by simp
qed



subsection \<open>Digits and \<^const>\<open>toFixed\<close>\<close>

lemma natToString_small: "n < 10 \<Longrightarrow> natToString n = [digitChar n]"
  by (simp add: natToString.simps)

lemma natToString_step: "10 \<le> n \<Longrightarrow> natToString n = natToString (n div 10) @ [digitChar (n mod 10)]"
  by (subst natToString.simps) simp

lemma natToString_zero: "natToString 0 = ''0''"
  by (simp add: natToString_small digitChar_def)

lemma natToString_length: "0 < length (natToString n)"
  by (subst natToString.simps) simp

lemma zero_or_digits: "(if n = 0 then ''0'' else natToString n) = natToString n"
  by (simp add: natToString_zero)

lemma toFixed_nonneg:
  assumes "0 \<le> x" and "x < 10 ^ 21" and "f \<noteq> 0"
  shows "toFixed x f =
           (let m = natToString (nat \<lfloor>x * 10 ^ f + 1 / 2\<rfloor>);
                z = (if length m \<le> f then replicate (f + 1 - length m) (CHR ''0'') @ m else m)
            in take (length z - f) z @ ''.'' @ drop (length z - f) z)"
proof -
  have "\<not> x < 0" "\<not> 10 ^ 21 \<le> x" using assms by simp_all
  then show ?thesis
    unfolding toFixed_def Let_def zero_or_digits using assms(3) by simp
qed

lemma split_one:
  "(let m = natToString n;
        z = (if length m \<le> 1 then replicate (1 + 1 - length m) (CHR ''0'') @ m else m)
    in take (length z - 1) z @ ''.'' @ drop (length z - 1) z)
   = natToString (n div 10) @ ''.'' @ [digitChar (n mod 10)]"
proof (cases "n < 10")
  case True
  then show ?thesis by (simp add: natToString_small natToString_zero Let_def)
next
  case False
  then have s: "natToString n = natToString (n div 10) @ [digitChar (n mod 10)]"
    by (simp add: natToString_step)
  have "0 < length (natToString (n div 10))" by (rule natToString_length)
  then show ?thesis unfolding s by (simp add: Let_def)
qed


lemma toFixed_one:
  "0 \<le> x \<Longrightarrow> x < 10 ^ 21 \<Longrightarrow> toFixed x 1 =
     natToString (nat \<lfloor>x * 10 + 1 / 2\<rfloor> div 10) @ ''.''
     @ [digitChar (nat \<lfloor>x * 10 + 1 / 2\<rfloor> mod 10)]"
  using split_one [of "nat \<lfloor>x * 10 + 1 / 2\<rfloor>"] toFixed_nonneg [of x 1] by simp


lemma nearest_bound:
  fixes y :: rat
  assumes "0 \<le> y"
  shows "\<bar>of_nat (nat \<lfloor>y + 1 / 2\<rfloor>) - y\<bar> \<le> 1 / 2"
proof -
  have "0 \<le> \<lfloor>y + 1 / 2\<rfloor>" using assms by simp
  then have "of_nat (nat \<lfloor>y + 1 / 2\<rfloor>) = (of_int \<lfloor>y + 1 / 2\<rfloor> :: rat)" by simp
  moreover have "of_int \<lfloor>y + 1 / 2\<rfloor> \<le> y + 1 / 2" by (rule of_int_floor_le)
  moreover have "y + 1 / 2 < of_int \<lfloor>y + 1 / 2\<rfloor> + 1" using floor_correct [of "y + 1 / 2"] by simp
  ultimately show ?thesis by linarith
qed











subsection \<open>Durations\<close>

lemma roundToDouble_error_pow:
  assumes "1 / 2 ^ j \<le> x" and "j \<le> 1022"
  shows "\<bar>roundToDouble x - x\<bar> \<le> x / 2 ^ 53"
proof -
  have "(2 :: rat) powi (- 1022) \<le> 2 powi (- int j)"
    by (rule power_int_increasing) (use assms(2) in simp_all)
  also have "\<dots> = 1 / 2 ^ j" by (simp add: power_int_minus_divide)
  finally have "2 powi (- 1022) \<le> x" using assms(1) by linarith
  then show ?thesis by (rule roundToDouble_error)
qed














subsection \<open>Pass rate\<close>

lemma percent_error:
  fixes p t :: nat
  assumes "0 < t" "t < 2 ^ 53" "p < 2 ^ 53"
  defines "X \<equiv> (of_nat p / of_nat t :: rat)"
  defines "d \<equiv> jsMultiply (jsDivide (of_nat p) (of_nat t)) 100"
  shows "\<bar>d - 100 * X\<bar> \<le> 100 * X / 2 ^ 51 \<and> 0 \<le> d \<and> d < 10 ^ 21"
proof (cases "p = 0")
  case True
  then show ?thesis by (simp add: d_def X_def jsMultiply_def jsDivide_def roundToDouble_def)
next
  case False
  define d1 where "d1 = jsDivide (of_nat p) (of_nat t)"
  have t0: "(0 :: rat) < of_nat t" using assms(1) by simp
  have "(of_nat t :: rat) < of_nat (2 ^ 53)" using assms(2) by (simp only: of_nat_less_iff)
  then have t1: "(of_nat t :: rat) < 2 ^ 53" by simp
  have "(of_nat p :: rat) < of_nat (2 ^ 53)" using assms(3) by (simp only: of_nat_less_iff)
  then have p1: "(of_nat p :: rat) < 2 ^ 53" by simp
  have p0: "(1 :: rat) \<le> of_nat p" using False by simp
  have "1 / 2 ^ 53 \<le> 1 / (of_nat t :: rat)" using t0 t1 by (simp add: frac_le)
  also have "\<dots> \<le> X" unfolding X_def using p0 t0 by (simp add: divide_right_mono)
  finally have X0: "1 / 2 ^ 53 \<le> X" .
  have "X \<le> of_nat p" unfolding X_def using t0 assms(1)
    by (simp add: pos_divide_le_eq mult_le_cancel_left1) 
  with p1 have X1: "X < 2 ^ 53" by linarith
  have "\<bar>roundToDouble X - X\<bar> \<le> X / 2 ^ 53"
    using X0 by (rule roundToDouble_error_pow) simp
  then have e1: "\<bar>d1 - X\<bar> \<le> X / 9007199254740992" by (simp add: d1_def jsDivide_def X_def)
  have Xn: "1 / 9007199254740992 \<le> X" "X < 9007199254740992" using X0 X1 by simp_all
  have "1 / 2 ^ 54 \<le> d1 * 100" using e1 Xn by (simp; linarith)
  then have "\<bar>roundToDouble (d1 * 100) - d1 * 100\<bar> \<le> d1 * 100 / 2 ^ 53"
    by (rule roundToDouble_error_pow) simp
  then have e2: "\<bar>d - d1 * 100\<bar> \<le> d1 * 100 / 9007199254740992"
    by (simp add: d_def jsMultiply_def d1_def)
  have a: "\<bar>d - 100 * X\<bar> \<le> 100 * X / 2251799813685248" using e1 e2 Xn by linarith
  have b: "0 \<le> d" using e1 e2 Xn by linarith
  have c: "d < 1000000000000000000000" using e1 e2 Xn by linarith
  from a b c show ?thesis by simp
qed

lemma percent_text_general:
  fixes p t :: nat
  assumes "0 < t" "t < 2 ^ 53" "p < 2 ^ 53"
  shows "\<exists>c::nat. toFixed (jsMultiply (jsDivide (of_nat p) (of_nat t)) 100) 1 = natToString (c div 10) @ ''.'' @ [digitChar (c mod 10)]
          \<and> \<bar>of_nat c / 10 - 100 * of_nat p / of_nat t\<bar>
               \<le> (1 / 20 + 100 * of_nat p / of_nat t / 2 ^ 51 :: rat)"
proof -
  define X :: rat where "X = of_nat p / of_nat t"
  define d where "d = jsMultiply (jsDivide (of_nat p) (of_nat t)) 100"
  define c where "c = nat \<lfloor>d * 10 + 1 / 2\<rfloor>"
  from percent_error [OF assms]
  have e: "\<bar>d - 100 * X\<bar> \<le> 100 * X / 2251799813685248" and d0: "0 \<le> d"
    and d1: "d < 10 ^ 21"
    by (simp_all add: d_def X_def)
  have "toFixed (jsMultiply (jsDivide (of_nat p) (of_nat t)) 100) 1 = toFixed d 1" by (simp add: d_def)
  with toFixed_one [OF d0 d1]
  have a: "toFixed (jsMultiply (jsDivide (of_nat p) (of_nat t)) 100) 1 = natToString (c div 10) @ ''.'' @ [digitChar (c mod 10)]"
    by (simp add: c_def)
  have "\<bar>of_nat c - d * 10\<bar> \<le> 1 / 2"
    unfolding c_def using d0 by (intro nearest_bound) simp
  with e have "\<bar>of_nat c / 10 - 100 * X\<bar> \<le> 1 / 20 + 100 * X / 2251799813685248"
    by linarith
  then have "\<bar>of_nat c / 10 - 100 * of_nat p / of_nat t\<bar>
               \<le> (1 / 20 + 100 * of_nat p / of_nat t / 2 ^ 51 :: rat)"
    by (simp add: X_def)
  with a show ?thesis by blast
qed

lemma percent_text_nearest:
  fixes p t :: nat
  assumes "0 < t" "p \<le> t" "t \<le> 10 ^ 9"
  shows "\<exists>c::nat. toFixed (jsMultiply (jsDivide (of_nat p) (of_nat t)) 100) 1 = natToString (c div 10) @ ''.'' @ [digitChar (c mod 10)]
          \<and> \<bar>of_nat c / 10 - 100 * of_nat p / of_nat t\<bar> \<le> (1 / 20 :: rat)"
proof -
  define X :: rat where "X = of_nat p / of_nat t"
  define d where "d = jsMultiply (jsDivide (of_nat p) (of_nat t)) 100"
  define c where "c = nat \<lfloor>d * 10 + 1 / 2\<rfloor>"
  have t53: "t < 2 ^ 53" "p < 2 ^ 53" using assms by simp_all
  from percent_error [OF assms(1) t53]
  have e: "\<bar>d - 100 * X\<bar> \<le> 100 * X / 2251799813685248" and d0: "0 \<le> d"
    and d1: "d < 10 ^ 21"
    by (simp_all add: d_def X_def)
  have t0: "(0 :: rat) < of_nat t" using assms(1) by simp
  have "(of_nat p :: rat) \<le> of_nat t" using assms(2) by (simp only: of_nat_le_iff)
  then have X1: "X \<le> 1" unfolding X_def using t0 by simp
  have X0: "0 \<le> X" by (simp add: X_def)
  have e': "\<bar>d * 10 - 1000 * X\<bar> \<le> 1 / 2000000000000" using e X1 X0 by linarith
  have "(of_nat t :: rat) \<le> of_nat (10 ^ 9)" using assms(3) by (simp only: of_nat_le_iff)
  then have "(of_nat t :: rat) \<le> 1000000000" by simp
  then have g: "1 / 2000000000 \<le> 1 / (2 * of_nat t :: rat)" using t0 by (simp add: frac_le)
  have "toFixed (jsMultiply (jsDivide (of_nat p) (of_nat t)) 100) 1 = toFixed d 1" by (simp add: d_def)
  with toFixed_one [OF d0 d1]
  have a: "toFixed (jsMultiply (jsDivide (of_nat p) (of_nat t)) 100) 1 = natToString (c div 10) @ ''.'' @ [digitChar (c mod 10)]"
    by (simp add: c_def)
  have "\<bar>of_nat c - d * 10\<bar> \<le> 1 / 2"
    unfolding c_def using d0 by (intro nearest_bound) simp
  then have near: "d * 10 - 1 / 2 \<le> of_nat c" "of_nat c \<le> d * 10 + 1 / 2" by linarith+
  have hX: "1000 * X = of_int (1000 * int p) / of_int (int t)" by (simp add: X_def)
  have ti: "(0 :: rat) < of_int (int t)" using assms(1) by simp
  have t2: "(0 :: rat) < 2 * of_nat t" using t0 by simp
  have hi: "1000 * X \<le> of_nat c + 1 / 2"
  proof (rule ccontr)
    assume "\<not> 1000 * X \<le> of_nat c + 1 / 2"
    then have "(of_int ((2 * int c + 1) * int t) :: rat) < of_int (2000 * int p)"
      unfolding hX using ti by (simp add: field_simps)
    then have "(2 * int c + 1) * int t < 2000 * int p" by (simp only: of_int_less_iff)
    then have "(2 * int c + 1) * int t + 1 \<le> 2000 * int p" by simp
    then have "(of_int ((2 * int c + 1) * int t + 1) :: rat) \<le> of_int (2000 * int p)"
      by (simp only: of_int_le_iff)
    then have m: "(2 * of_nat c + 1) * of_nat t + 1 \<le> (2000 * of_nat p :: rat)" by simp
    have "(of_nat c + 1 / 2 + 1 / (2 * of_nat t)) * (2 * of_nat t)
                     = ((2 * of_nat c + 1) * of_nat t + 1 :: rat)"
      using t0 by (simp add: field_simps)
    also note m
    also have "(2000 * of_nat p :: rat) = 1000 * X * (2 * of_nat t)"
      using t0 by (simp add: X_def)
    finally have "(of_nat c + 1 / 2 + 1 / (2 * of_nat t)) * (2 * of_nat t)
                       \<le> 1000 * X * (2 * of_nat t)" .
    then have "of_nat c + 1 / 2 + 1 / (2 * of_nat t) \<le> 1000 * X"
      by (simp only: mult_le_cancel_right_pos [OF t2])
    with near(1) e' g show False by linarith
  qed
  have lo: "of_nat c - 1 / 2 \<le> 1000 * X"
  proof (rule ccontr)
    assume "\<not> of_nat c - 1 / 2 \<le> 1000 * X"
    then have "(of_int (2000 * int p) :: rat) < of_int ((2 * int c - 1) * int t)"
      unfolding hX using ti by (simp add: field_simps)
    then have "2000 * int p < (2 * int c - 1) * int t" by (simp only: of_int_less_iff)
    then have "2000 * int p + 1 \<le> (2 * int c - 1) * int t" by simp
    then have "(of_int (2000 * int p + 1) :: rat) \<le> of_int ((2 * int c - 1) * int t)"
      by (simp only: of_int_le_iff)
    then have m: "2000 * of_nat p + 1 \<le> ((2 * of_nat c - 1) * of_nat t :: rat)" by simp
    have "(1000 * X + 1 / (2 * of_nat t)) * (2 * of_nat t) = (2000 * of_nat p + 1 :: rat)"
      using t0 by (simp add: X_def field_simps)
    also note m
    also have "((2 * of_nat c - 1) * of_nat t :: rat) = (of_nat c - 1 / 2) * (2 * of_nat t)"
      by (simp add: field_simps)
    finally have "(1000 * X + 1 / (2 * of_nat t)) * (2 * of_nat t)
                       \<le> (of_nat c - 1 / 2) * (2 * of_nat t)" .
    then have "1000 * X + 1 / (2 * of_nat t) \<le> of_nat c - 1 / 2"
      by (simp only: mult_le_cancel_right_pos [OF t2])
    with near(2) e' g show False by linarith
  qed
  from lo hi have "\<bar>of_nat c / 10 - 100 * X\<bar> \<le> 1 / 20" by linarith
  then have "\<bar>of_nat c / 10 - 100 * of_nat p / of_nat t\<bar> \<le> (1 / 20 :: rat)" by (simp add: X_def)
  with a show ?thesis by blast
qed

lemma percent_text_2_of_3: "toFixed (jsMultiply (jsDivide 2 3) 100) 1 = ''66.7''"
proof -
  have d: "jsDivide 2 3 = 6004799503160661 / 9007199254740992"
    unfolding jsDivide_def using roundToDouble_eqI [of "2 / 3" "-1" 6004799503160661] by simp
  have m: "jsMultiply (6004799503160661 / 9007199254740992) 100 = 2345624805922133 / 35184372088832"
    unfolding jsMultiply_def using roundToDouble_eqI [of "150119987579016525 / 2251799813685248" "6" 4691249611844266] by simp
  have f: "\<lfloor>(2345624805922133 / 35184372088832 :: rat) * 10 + 1 / 2\<rfloor> = 667"
    by (rule floor_unique) simp_all
  have "toFixed (2345624805922133 / 35184372088832) 1 = ''66.7''"
    using toFixed_one [of "2345624805922133 / 35184372088832"] unfolding f
    by (simp add: natToString_step natToString_small digitChar_def)
  then show ?thesis by (simp add: d m)
qed

lemma percent_text_23_of_80: "toFixed (jsMultiply (jsDivide 23 80) 100) 1 = ''28.7''"
proof -
  have d: "jsDivide 23 80 = 2589569785738035 / 9007199254740992"
    unfolding jsDivide_def using roundToDouble_eqI [of "23 / 80" "-2" 5179139571476070] by simp
  have m: "jsMultiply (2589569785738035 / 9007199254740992) 100 = 8092405580431359 / 281474976710656"
    unfolding jsMultiply_def using roundToDouble_eqI [of "64739244643450875 / 2251799813685248" "4" 8092405580431359] by simp
  have f: "\<lfloor>(8092405580431359 / 281474976710656 :: rat) * 10 + 1 / 2\<rfloor> = 287"
    by (rule floor_unique) simp_all
  have "toFixed (8092405580431359 / 281474976710656) 1 = ''28.7''"
    using toFixed_one [of "8092405580431359 / 281474976710656"] unfolding f
    by (simp add: natToString_step natToString_small digitChar_def)
  then show ?thesis by (simp add: d m)
qed

lemma summarize_passed_le_total:
  "passedScenarios (summarize fs) \<le> TestResults.totalScenarios (summarize fs)"
proof -
  have "consistent initialResults"
    by (simp add: consistent_def initialResults_def)
  then have c: "consistent (summarize fs)"
    unfolding summarize_def by (rule fold_featureLoopBody_consistent)
  then have "\<forall>e \<in> set (features (summarize fs)). passed e \<le> scenarios e"
    by (simp add: consistent_def list_all_iff balanced_def)
  then have "sum_list (map passed (features (summarize fs)))
               \<le> sum_list (map scenarios (features (summarize fs)))"
    by (intro sum_list_mono) simp
  with c show ?thesis by (simp add: consistent_def)
qed

lemma passRate_positive:
  "0 < TestResults.totalScenarios r \<Longrightarrow>
   passRate r =
     toFixed (jsMultiply (jsDivide (of_nat (passedScenarios r)) (of_nat (TestResults.totalScenarios r))) 100) 1"
  by (simp add: passRate_def)

lemma occursIn_here: "occursIn l (a @ l)"
  unfolding occursIn_def by (rule exI [of _ a], rule exI [of _ "[]"]) simp

lemma occursIn_append: "occursIn l s \<Longrightarrow> occursIn l (s @ t)"
  unfolding occursIn_def by (metis append.assoc)

lemma occursIn_if: "occursIn l s \<Longrightarrow> occursIn l t \<Longrightarrow> occursIn l (if b then s else t)"
  by simp

lemma generateComment_passRate:
  "occursIn (''| **Pass Rate** | '' @ passRate r @ ''% |'' @ NL) (generateComment r)"
  unfolding generateComment_def Let_def
  by (rule occursIn_here | rule occursIn_if | rule occursIn_append)+

text \<open>
  Claim C7. The pass rate of the report is \<open>0.0\<close> when there is no scenario. Otherwise it is
  the percentage of passed scenarios with one decimal: for up to \<open>10^9\<close> scenarios the tenths
  \<open>c\<close> are nearest to \<open>100 * passed / total\<close> (on a tie either neighbour: 23 of 80 gives
  \<open>28.7\<close>), and for all counters below \<open>2^53\<close> they are nearest up to the rounding of the
  two double operations. With 2 of 3 scenarios passed it is \<open>66.7\<close>. The report shows this
  text in its pass rate row, and in every summary the passed scenarios are at most the total.
\<close>

theorem passRate_one_decimal:
  "(TestResults.totalScenarios r = 0 \<longrightarrow> passRate r = ''0.0'')
   \<and> (0 < TestResults.totalScenarios r \<and> passedScenarios r \<le> TestResults.totalScenarios r
        \<and> TestResults.totalScenarios r \<le> 10 ^ 9 \<longrightarrow>
        (\<exists>c::nat. passRate r = natToString (c div 10) @ ''.'' @ [digitChar (c mod 10)]
           \<and> \<bar>of_nat c / 10
                - 100 * of_nat (passedScenarios r) / of_nat (TestResults.totalScenarios r)\<bar>
              \<le> (1 / 20 :: rat)))
   \<and> (0 < TestResults.totalScenarios r \<and> TestResults.totalScenarios r < 2 ^ 53
        \<and> passedScenarios r < 2 ^ 53 \<longrightarrow>
        (\<exists>c::nat. passRate r = natToString (c div 10) @ ''.'' @ [digitChar (c mod 10)]
           \<and> \<bar>of_nat c / 10
                - 100 * of_nat (passedScenarios r) / of_nat (TestResults.totalScenarios r)\<bar>
              \<le> (1 / 20
                   + 100 * of_nat (passedScenarios r) / of_nat (TestResults.totalScenarios r) / 2 ^ 51
                   :: rat)))
   \<and> (TestResults.totalScenarios r = 3 \<and> passedScenarios r = 2 \<longrightarrow> passRate r = ''66.7'')
   \<and> (TestResults.totalScenarios r = 80 \<and> passedScenarios r = 23 \<longrightarrow> passRate r = ''28.7'')
   \<and> occursIn (''| **Pass Rate** | '' @ passRate r @ ''% |'' @ NL) (generateComment r)
   \<and> passedScenarios (summarize fs) \<le> TestResults.totalScenarios (summarize fs)"
proof -
  have a: "TestResults.totalScenarios r = 0 \<longrightarrow> passRate r = ''0.0''"
    by (simp add: passRate_def)
  have b: "0 < TestResults.totalScenarios r \<and> passedScenarios r \<le> TestResults.totalScenarios r
        \<and> TestResults.totalScenarios r \<le> 10 ^ 9 \<longrightarrow>
        (\<exists>c::nat. passRate r = natToString (c div 10) @ ''.'' @ [digitChar (c mod 10)]
           \<and> \<bar>of_nat c / 10
                - 100 * of_nat (passedScenarios r) / of_nat (TestResults.totalScenarios r)\<bar>
              \<le> (1 / 20 :: rat))"
    using percent_text_nearest [of "TestResults.totalScenarios r" "passedScenarios r"]
    by (auto simp: passRate_positive)
  have c: "0 < TestResults.totalScenarios r \<and> TestResults.totalScenarios r < 2 ^ 53
        \<and> passedScenarios r < 2 ^ 53 \<longrightarrow>
        (\<exists>c::nat. passRate r = natToString (c div 10) @ ''.'' @ [digitChar (c mod 10)]
           \<and> \<bar>of_nat c / 10
                - 100 * of_nat (passedScenarios r) / of_nat (TestResults.totalScenarios r)\<bar>
              \<le> (1 / 20
                   + 100 * of_nat (passedScenarios r) / of_nat (TestResults.totalScenarios r) / 2 ^ 51
                   :: rat))"
    using percent_text_general [of "TestResults.totalScenarios r" "passedScenarios r"]
    by (auto simp: passRate_positive)
  have d: "TestResults.totalScenarios r = 3 \<and> passedScenarios r = 2 \<longrightarrow> passRate r = ''66.7''"
    using percent_text_2_of_3 by (simp add: passRate_def)
  have e: "TestResults.totalScenarios r = 80 \<and> passedScenarios r = 23 \<longrightarrow> passRate r = ''28.7''"
    using percent_text_23_of_80 by (simp add: passRate_def)
  from a b c d e generateComment_passRate [of r] summarize_passed_le_total [of fs]
  show ?thesis by blast
qed

theorem passRate_one_decimal_witness:
  "0 < TestResults.totalScenarios (summarize sampleDocument)
   \<and> TestResults.totalScenarios (summarize sampleDocument) = 3
   \<and> passedScenarios (summarize sampleDocument) = 2
   \<and> passRate (summarize sampleDocument) = ''66.7''
   \<and> TestResults.totalScenarios initialResults = 0
   \<and> passRate initialResults = ''0.0''"
  using passRate_one_decimal [of "summarize sampleDocument" sampleDocument]
    passRate_one_decimal [of initialResults sampleDocument]
  by (simp add: summarize_sampleDocument initialResults_def)

section \<open>Properties of the Aggregator\<close>

lemma logTestStepFinished_resolve:
  "logTestStepFinished c ev this =
     (case resolveStepText c (TestStepFinished.testCaseStartedId ev) (TestStepFinished.testStepId ev) of
        None \<Rightarrow> this
      | Some t \<Rightarrow>
          log (clearLine @ ''  '' @ getStatusIcon (TestStepResult.status (testStepResult ev)) @ '' '' @ t @ NL)
            (updateStepCounts (TestStepResult.status (testStepResult ev)) this))"
  by (simp add: logTestStepFinished_def resolveStepText_def Let_def split: option.splits Option.bind_splits)

lemma log_counters [simp]:
  "VerboseFormatter.totalSteps (log s this) = VerboseFormatter.totalSteps this"
  "passedCount (log s this) = passedCount this"
  "failedCount (log s this) = failedCount this"
  "skippedCount (log s this) = skippedCount this"
  "VerboseFormatter.totalScenarios (log s this) = VerboseFormatter.totalScenarios this"
  "scenariosPassed (log s this) = scenariosPassed this"
  "scenariosFailed (log s this) = scenariosFailed this"
  "scenariosSkipped (log s this) = scenariosSkipped this"
  "startTime (log s this) = startTime this"
  "stepSum (log s this) = stepSum this"
  by (simp_all add: log_def stepSum_def)

lemma logTestCaseStarted_steps [simp]:
  "VerboseFormatter.totalSteps (logTestCaseStarted c ev this) = VerboseFormatter.totalSteps this"
  "stepSum (logTestCaseStarted c ev this) = stepSum this"
  by (simp_all add: logTestCaseStarted_def stepSum_def split: option.splits)

lemma trackScenarioResult_steps [simp]:
  "VerboseFormatter.totalSteps (trackScenarioResult c ev this) = VerboseFormatter.totalSteps this"
  "stepSum (trackScenarioResult c ev this) = stepSum this"
  by (simp_all add: trackScenarioResult_def stepSum_def Let_def split: option.splits)

lemma logTestStepStarted_steps [simp]:
  "VerboseFormatter.totalSteps (logTestStepStarted c ev this) = VerboseFormatter.totalSteps this"
  "stepSum (logTestStepStarted c ev this) = stepSum this"
  by (simp_all add: logTestStepStarted_def stepSum_def split: option.splits)

lemma logTestRunFinished_steps [simp]:
  "VerboseFormatter.totalSteps (logTestRunFinished now this) = VerboseFormatter.totalSteps this"
  "stepSum (logTestRunFinished now this) = stepSum this"
  by (simp_all add: logTestRunFinished_def stepSum_def Let_def)

lemma updateStepCounts_steps:
  "VerboseFormatter.totalSteps (updateStepCounts st this) = VerboseFormatter.totalSteps this + 1"
  "stepSum (updateStepCounts st this) = stepSum this + (if st \<in> {PASSED, FAILED, SKIPPED} then 1 else 0)"
  by (simp_all add: updateStepCounts_def stepSum_def Let_def)

lemma logTestStepFinished_steps:
  "VerboseFormatter.totalSteps (logTestStepFinished c ev this) =
     VerboseFormatter.totalSteps this +
       (if resolveStepText c (TestStepFinished.testCaseStartedId ev) (TestStepFinished.testStepId ev) \<noteq> None
        then 1 else 0)"
  "stepSum (logTestStepFinished c ev this) =
     stepSum this +
       (if resolveStepText c (TestStepFinished.testCaseStartedId ev) (TestStepFinished.testStepId ev) \<noteq> None
           \<and> TestStepResult.status (testStepResult ev) \<in> {PASSED, FAILED, SKIPPED}
        then 1 else 0)"
  by (auto simp: logTestStepFinished_resolve updateStepCounts_steps split: option.splits)

lemma onEnvelope_steps:
  "VerboseFormatter.totalSteps (onEnvelope c now e this) + stepSum this =
     VerboseFormatter.totalSteps this + stepSum (onEnvelope c now e this)
       + unrecognizedSteps [(c, now, e)]"
proof -
  have a: "stepSum (this\<lparr>startTime := now\<rparr>) = stepSum this" by (simp add: stepSum_def)
  show ?thesis
    by (simp add: onEnvelope_def Let_def logTestStepFinished_steps a split: option.splits)
qed

lemma deliver_steps:
  "VerboseFormatter.totalSteps (deliver ds this) + stepSum this =
     VerboseFormatter.totalSteps this + stepSum (deliver ds this) + unrecognizedSteps ds"
proof (induction ds arbitrary: this)
  case Nil
  show ?case by simp
next
  case (Cons d ds)
  obtain c now e where d: "d = (c, now, e)" by (cases d)
  have "VerboseFormatter.totalSteps (onEnvelope c now e this) + stepSum this =
          VerboseFormatter.totalSteps this + stepSum (onEnvelope c now e this)
            + unrecognizedSteps [(c, now, e)]"
    by (rule onEnvelope_steps)
  with Cons [of "onEnvelope c now e this"] d show ?case by simp
qed

text \<open>
  Claim C4. After every delivery of any sequence of envelopes to a new formatter, the total
  step counter is the sum of the passed, failed and skipped step counters and the number of
  counted steps with another status: the equation holds for every prefix of the sequence.
\<close>

theorem deliver_step_counter_invariant:
  "VerboseFormatter.totalSteps (deliver (take n ds) newFormatter) =
     passedCount (deliver (take n ds) newFormatter)
     + failedCount (deliver (take n ds) newFormatter)
     + skippedCount (deliver (take n ds) newFormatter)
     + unrecognizedSteps (take n ds)"
  using deliver_steps [of "take n ds" newFormatter]
  by (simp add: stepSum_def newFormatter_def)

theorem deliver_step_counter_invariant_witness:
  "VerboseFormatter.totalSteps (deliver (take 5 sampleRun) newFormatter) = 2
   \<and> passedCount (deliver (take 5 sampleRun) newFormatter) = 1
   \<and> failedCount (deliver (take 5 sampleRun) newFormatter) = 0
   \<and> skippedCount (deliver (take 5 sampleRun) newFormatter) = 0
   \<and> unrecognizedSteps (take 5 sampleRun) = 1"
proof -
  have e: "passedCount (deliver (take 5 sampleRun) newFormatter) = 1
      \<and> failedCount (deliver (take 5 sampleRun) newFormatter) = 0
      \<and> skippedCount (deliver (take 5 sampleRun) newFormatter) = 0
      \<and> unrecognizedSteps (take 5 sampleRun) = 1"
    by code_simp
  from e deliver_step_counter_invariant [of 5 sampleRun] show ?thesis by simp
qed

text \<open>
  Claim C5. When the case of a finished-case event resolves, the total scenario counter
  grows by one and exactly the passed, failed or skipped scenario counter named by the
  worst step status grows by one, none of them for another status; the step counters and
  the output stay. When the case does not resolve, the formatter is unchanged.
\<close>

theorem trackScenarioResult_counts:
  "(c (TestCaseFinished.testCaseStartedId ev) = None \<longrightarrow> trackScenarioResult c ev this = this)
   \<and> (\<forall>tc. c (TestCaseFinished.testCaseStartedId ev) = Some tc \<longrightarrow>
         VerboseFormatter.totalScenarios (trackScenarioResult c ev this) =
           VerboseFormatter.totalScenarios this + 1
       \<and> scenariosPassed (trackScenarioResult c ev this) = scenariosPassed this +
           (if TestStepResult.status (worstTestStepResult tc) = PASSED then 1 else 0)
       \<and> scenariosFailed (trackScenarioResult c ev this) = scenariosFailed this +
           (if TestStepResult.status (worstTestStepResult tc) = FAILED then 1 else 0)
       \<and> scenariosSkipped (trackScenarioResult c ev this) = scenariosSkipped this +
           (if TestStepResult.status (worstTestStepResult tc) = SKIPPED then 1 else 0)
       \<and> (TestStepResult.status (worstTestStepResult tc) \<notin> {PASSED, FAILED, SKIPPED} \<longrightarrow>
             scenariosPassed (trackScenarioResult c ev this) = scenariosPassed this
           \<and> scenariosFailed (trackScenarioResult c ev this) = scenariosFailed this
           \<and> scenariosSkipped (trackScenarioResult c ev this) = scenariosSkipped this)
       \<and> VerboseFormatter.totalSteps (trackScenarioResult c ev this) = VerboseFormatter.totalSteps this
       \<and> passedCount (trackScenarioResult c ev this) = passedCount this
       \<and> failedCount (trackScenarioResult c ev this) = failedCount this
       \<and> skippedCount (trackScenarioResult c ev this) = skippedCount this
       \<and> logged (trackScenarioResult c ev this) = logged this)"
  by (simp add: trackScenarioResult_def Let_def)

theorem trackScenarioResult_counts_witness:
  "sampleCollector ''case-1'' = Some sampleAttempt
   \<and> TestStepResult.status (worstTestStepResult sampleAttempt) \<notin> {PASSED, FAILED, SKIPPED}
   \<and> VerboseFormatter.totalScenarios
        (trackScenarioResult sampleCollector \<lparr>TestCaseFinished.testCaseStartedId = ''case-1''\<rparr> newFormatter) = 1
   \<and> scenariosPassed
        (trackScenarioResult sampleCollector \<lparr>TestCaseFinished.testCaseStartedId = ''case-1''\<rparr> newFormatter) = 0
   \<and> scenariosFailed
        (trackScenarioResult sampleCollector \<lparr>TestCaseFinished.testCaseStartedId = ''case-1''\<rparr> newFormatter) = 0
   \<and> scenariosSkipped
        (trackScenarioResult sampleCollector \<lparr>TestCaseFinished.testCaseStartedId = ''case-1''\<rparr> newFormatter) = 0
   \<and> sampleCollector ''case-7'' = None
   \<and> trackScenarioResult sampleCollector \<lparr>TestCaseFinished.testCaseStartedId = ''case-7''\<rparr> newFormatter
       = newFormatter"
  using trackScenarioResult_counts [of sampleCollector "\<lparr>TestCaseFinished.testCaseStartedId = ''case-1''\<rparr>" newFormatter]
        trackScenarioResult_counts [of sampleCollector "\<lparr>TestCaseFinished.testCaseStartedId = ''case-7''\<rparr>" newFormatter]
  by (simp add: sampleCollector_def sampleAttempt_def newFormatter_def)

text \<open>
  Claim C6. When the case, the test step, its pickle step or a non-empty display text of a
  finished-step event cannot be found, the formatter is unchanged: nothing is counted and
  nothing is written. When all are found, the step is counted and one line is written. The
  formatter is unchanged exactly when the step text does not resolve.
\<close>

theorem logTestStepFinished_unresolved_unchanged:
  "(c (TestStepFinished.testCaseStartedId ev) = None \<longrightarrow> logTestStepFinished c ev this = this)
   \<and> (\<forall>tc. c (TestStepFinished.testCaseStartedId ev) = Some tc \<longrightarrow>
         (findTestStep tc (TestStepFinished.testStepId ev) = None \<longrightarrow>
            logTestStepFinished c ev this = this)
       \<and> (\<forall>testStep. findTestStep tc (TestStepFinished.testStepId ev) = Some testStep \<longrightarrow>
             (pickleStepId testStep = None \<or> pickleStepId testStep = Some '''' \<longrightarrow>
                logTestStepFinished c ev this = this)
           \<and> (\<forall>psid. pickleStepId testStep = Some psid \<longrightarrow>
                 (find (\<lambda>s. PickleStep.id s = psid) (Pickle.steps (pickle tc)) = None \<longrightarrow>
                    logTestStepFinished c ev this = this)
               \<and> (\<forall>gherkinStep.
                     find (\<lambda>s. PickleStep.id s = psid) (Pickle.steps (pickle tc)) = Some gherkinStep \<longrightarrow>
                     (text' gherkinStep = '''' \<longrightarrow> logTestStepFinished c ev this = this)
                   \<and> (psid \<noteq> '''' \<and> text' gherkinStep \<noteq> '''' \<longrightarrow>
                         VerboseFormatter.totalSteps (logTestStepFinished c ev this) =
                           VerboseFormatter.totalSteps this + 1
                       \<and> logged (logTestStepFinished c ev this) =
                           logged this @
                             [clearLine @ ''  ''
                              @ getStatusIcon (TestStepResult.status (testStepResult ev))
                              @ '' '' @ text' gherkinStep @ NL])))))
   \<and> (logTestStepFinished c ev this = this \<longleftrightarrow>
        resolveStepText c (TestStepFinished.testCaseStartedId ev) (TestStepFinished.testStepId ev) = None)"
proof -
  have a: "logTestStepFinished c ev this = this \<longleftrightarrow>
        resolveStepText c (TestStepFinished.testCaseStartedId ev) (TestStepFinished.testStepId ev) = None"
  proof (cases "resolveStepText c (TestStepFinished.testCaseStartedId ev) (TestStepFinished.testStepId ev)")
    case None
    then show ?thesis by (simp add: logTestStepFinished_resolve)
  next
    case (Some t)
    then have "VerboseFormatter.totalSteps (logTestStepFinished c ev this) =
                 VerboseFormatter.totalSteps this + 1"
      by (simp add: logTestStepFinished_steps)
    then have "logTestStepFinished c ev this \<noteq> this" by auto
    with Some show ?thesis by simp
  qed
  have b: "VerboseFormatter.totalSteps (updateStepCounts st this) = VerboseFormatter.totalSteps this + 1"
          "logged (updateStepCounts st this) = logged this" for st
    by (simp_all add: updateStepCounts_def Let_def)
  show ?thesis
    using a by (simp add: logTestStepFinished_def Let_def b log_def)
qed

theorem logTestStepFinished_unresolved_unchanged_witness:
  "sampleCollector ''case-7'' = None
   \<and> logTestStepFinished sampleCollector (stepFinished ''case-7'' ''ts-1'' FAILED) newFormatter
       = newFormatter
   \<and> sampleCollector ''case-1'' = Some sampleAttempt
   \<and> findTestStep sampleAttempt ''ts-9'' = None
   \<and> logTestStepFinished sampleCollector (stepFinished ''case-1'' ''ts-9'' PASSED) newFormatter
       = newFormatter
   \<and> findTestStep sampleAttempt ''hook-1'' = Some \<lparr>TestStep.id = ''hook-1'', pickleStepId = None\<rparr>
   \<and> logTestStepFinished sampleCollector (stepFinished ''case-1'' ''hook-1'' PASSED) newFormatter
       = newFormatter"
proof -
  have h1: "sampleCollector ''case-7'' = None" "sampleCollector ''case-1'' = Some sampleAttempt"
    by (simp_all add: sampleCollector_def)
  have h2: "findTestStep sampleAttempt ''ts-9'' = None"
    "findTestStep sampleAttempt ''hook-1'' = Some \<lparr>TestStep.id = ''hook-1'', pickleStepId = None\<rparr>"
    by (simp_all add: findTestStep_def sampleAttempt_def)
  show ?thesis
    using logTestStepFinished_unresolved_unchanged
            [of sampleCollector "stepFinished ''case-7'' ''ts-1'' FAILED" newFormatter]
          logTestStepFinished_unresolved_unchanged
            [of sampleCollector "stepFinished ''case-1'' ''ts-9'' PASSED" newFormatter]
          logTestStepFinished_unresolved_unchanged
            [of sampleCollector "stepFinished ''case-1'' ''hook-1'' PASSED" newFormatter]
    by (simp add: h1 h2 stepFinished_def)
qed

end
